theory Spec2Isabelle
  imports Main "HOL-Library.Word"
begin

section \<open>Vulkan data used by the swapchain code\<close>

text \<open>
  The types below are the parts of the Vulkan API that \<open>labutils/vulkan_window.cpp\<close> and
  the exercise main loops touch. Handles are opaque numbers, \<open>0\<close> is \<open>VK_NULL_HANDLE\<close>.
  \<open>std::uint32_t\<close> is \<open>32 word\<close>: \<open>+\<close> wraps and \<open><\<close> is the unsigned order.
\<close>

type_synonym u32 = "32 word"
type_synonym vkhandle = nat

datatype VkResult =
    VK_SUCCESS
  | VK_NOT_READY
  | VK_TIMEOUT
  | VK_INCOMPLETE
  | VK_SUBOPTIMAL_KHR
  | VK_ERROR_OUT_OF_DATE_KHR
  | VK_ERROR_DEVICE_LOST
  | VK_ERROR_SURFACE_LOST_KHR
  | VK_ERROR_OUT_OF_HOST_MEMORY
  | VK_ERROR_OTHER int

datatype VkFormat =
    VK_FORMAT_UNDEFINED
  | VK_FORMAT_R8G8B8A8_UNORM
  | VK_FORMAT_R8G8B8A8_SRGB
  | VK_FORMAT_B8G8R8A8_UNORM
  | VK_FORMAT_B8G8R8A8_SRGB
  | VK_FORMAT_OTHER nat

datatype VkColorSpaceKHR =
    VK_COLOR_SPACE_SRGB_NONLINEAR_KHR
  | VK_COLOR_SPACE_OTHER nat

datatype VkPresentModeKHR =
    VK_PRESENT_MODE_IMMEDIATE_KHR
  | VK_PRESENT_MODE_MAILBOX_KHR
  | VK_PRESENT_MODE_FIFO_KHR
  | VK_PRESENT_MODE_FIFO_RELAXED_KHR

datatype VkSharingMode = VK_SHARING_MODE_EXCLUSIVE | VK_SHARING_MODE_CONCURRENT

record VkExtent2D =
  width :: u32
  height :: u32

record VkSurfaceFormatKHR =
  format :: VkFormat
  colorSpace :: VkColorSpaceKHR

record VkSurfaceCapabilitiesKHR =
  minImageCount :: u32
  maxImageCount :: u32
  currentExtent :: VkExtent2D
  minImageExtent :: VkExtent2D
  maxImageExtent :: VkExtent2D

record VkSwapchainCreateInfoKHR =
  info_minImageCount :: u32
  info_imageFormat :: VkFormat
  info_imageColorSpace :: VkColorSpaceKHR
  info_imageExtent :: VkExtent2D
  info_presentMode :: VkPresentModeKHR
  info_oldSwapchain :: vkhandle
  info_imageSharingMode :: VkSharingMode
  info_queueFamilyIndices :: "u32 list"

text \<open>
  \<open>lut::Error\<close> carries a formatted message; the model keeps the name of the Vulkan call
  and the status it returned. A failed \<open>assert\<close> aborts the program and is an error of
  its own.
\<close>

datatype Error =
    Error string VkResult
  | AssertionFailed string

section \<open>The platform: what the driver and the window system answer\<close>

text \<open>
  Every query and every creation call of \<open>create_swapchain\<close>, \<open>get_swapchain_images\<close> and
  \<open>create_swapchain_image_views\<close> is answered by the platform. One \<open>Platform\<close> value holds
  the answers given during one call of \<open>recreate_swapchain\<close>. The framebuffer size is what
  \<open>glfwGetFramebufferSize\<close> writes to its two \<open>int\<close> outputs.
\<close>

record Platform =
  formatsEnumResult :: VkResult
  formatsGetResult :: VkResult
  surfaceFormats :: "VkSurfaceFormatKHR list"
  modesEnumResult :: VkResult
  modesGetResult :: VkResult
  presentModes :: "VkPresentModeKHR list"
  capabilitiesResult :: VkResult
  surfaceCapabilities :: VkSurfaceCapabilitiesKHR
  framebufferSize :: "int \<times> int"
  createSwapchain :: "VkSwapchainCreateInfoKHR \<Rightarrow> VkResult \<times> vkhandle"
  imagesEnumResult :: VkResult
  imagesGetResult :: VkResult
  swapchainImages :: "vkhandle \<Rightarrow> vkhandle list"
  createImageView :: "vkhandle \<Rightarrow> VkResult \<times> vkhandle"

section \<open>\<open>create_swapchain\<close> (labutils/vulkan_window.cpp, lines 380 to 477)\<close>

text \<open>\<open>get_surface_formats\<close>, lines 336 to 353: two calls, each may fail and throw.\<close>

definition get_surface_formats :: "Platform \<Rightarrow> Error + VkSurfaceFormatKHR list" where
  "get_surface_formats p =
     (if formatsEnumResult p \<noteq> VK_SUCCESS
      then Inl (Error ''vkGetPhysicalDeviceSurfaceFormatsKHR'' (formatsEnumResult p))
      else if formatsGetResult p \<noteq> VK_SUCCESS
      then Inl (Error ''vkGetPhysicalDeviceSurfaceFormatsKHR'' (formatsGetResult p))
      else Inr (surfaceFormats p))"

text \<open>\<open>get_present_modes\<close>, lines 355 to 378: the modes are returned as a set.\<close>

definition get_present_modes :: "Platform \<Rightarrow> Error + VkPresentModeKHR set" where
  "get_present_modes p =
     (if modesEnumResult p \<noteq> VK_SUCCESS
      then Inl (Error ''vkGetPhysicalDeviceSurfacePresentModesKHR'' (modesEnumResult p))
      else if modesGetResult p \<noteq> VK_SUCCESS
      then Inl (Error ''vkGetPhysicalDeviceSurfacePresentModesKHR'' (modesGetResult p))
      else Inr (set (presentModes p)))"

text \<open>
  Lines 387 to 401: \<open>format\<close> starts as \<open>formats[0]\<close>; the loop stops at the first entry
  that is \<open>R8G8B8A8_SRGB\<close> or \<open>B8G8R8A8_SRGB\<close> with the SRGB-nonlinear colour space.
\<close>

fun format_loop :: "VkSurfaceFormatKHR \<Rightarrow> VkSurfaceFormatKHR list \<Rightarrow> VkSurfaceFormatKHR" where
  "format_loop fmt [] = fmt"
| "format_loop fmt (curFormat # rest) =
     (if format curFormat = VK_FORMAT_R8G8B8A8_SRGB
         \<and> colorSpace curFormat = VK_COLOR_SPACE_SRGB_NONLINEAR_KHR
      then curFormat
      else if format curFormat = VK_FORMAT_B8G8R8A8_SRGB
         \<and> colorSpace curFormat = VK_COLOR_SPACE_SRGB_NONLINEAR_KHR
      then curFormat
      else format_loop fmt rest)"

text \<open>Line 385 asserts that the list is not empty before \<open>formats[0]\<close> is read.\<close>

definition select_format :: "VkSurfaceFormatKHR list \<Rightarrow> Error + VkSurfaceFormatKHR" where
  "select_format formats =
     (case formats of
        [] \<Rightarrow> Inl (AssertionFailed ''!formats.empty()'')
      | first # _ \<Rightarrow> Inr (format_loop first formats))"

text \<open>Lines 403 to 406.\<close>

definition select_present_mode :: "VkPresentModeKHR set \<Rightarrow> VkPresentModeKHR" where
  "select_present_mode modes =
     (if VK_PRESENT_MODE_FIFO_RELAXED_KHR \<in> modes
      then VK_PRESENT_MODE_FIFO_RELAXED_KHR else VK_PRESENT_MODE_FIFO_KHR)"

text \<open>Lines 415 to 421, on \<open>std::uint32_t\<close>: \<open>minImageCount + 1\<close> wraps at \<open>2^32\<close>.\<close>

definition select_image_count :: "VkSurfaceCapabilitiesKHR \<Rightarrow> u32" where
  "select_image_count caps =
     (let imageCount = (2 :: u32);
          imageCount = (if imageCount < minImageCount caps + 1
                        then minImageCount caps + 1 else imageCount);
          imageCount = (if maxImageCount caps > 0 \<and> imageCount > maxImageCount caps
                        then maxImageCount caps else imageCount)
      in imageCount)"

text \<open>
  \<open>std::clamp(v, lo, hi)\<close> is \<open>v < lo ? lo : hi < v ? hi : v\<close>; the standard leaves the call
  undefined when \<open>hi < lo\<close>, and the theorems about its range assume \<open>lo \<le> hi\<close>.
\<close>

definition std_clamp :: "u32 \<Rightarrow> u32 \<Rightarrow> u32 \<Rightarrow> u32" where
  "std_clamp v lo hi = (if v < lo then lo else if hi < v then hi else v)"

text \<open>
  Lines 423 to 435. The test compares only \<open>extent.width\<close> with
  \<open>numeric_limits<uint32_t>::max()\<close>; \<open>std::uint32_t(width)\<close> converts the \<open>int\<close> modulo
  \<open>2^32\<close>.
\<close>

definition resolve_extent :: "VkSurfaceCapabilitiesKHR \<Rightarrow> int \<times> int \<Rightarrow> VkExtent2D" where
  "resolve_extent caps fb =
     (let extent = currentExtent caps
      in if (0xFFFFFFFF :: u32) = width extent
         then (case fb of (w, h) \<Rightarrow>
                 extent\<lparr> width := std_clamp (word_of_int w)
                                     (width (minImageExtent caps)) (width (maxImageExtent caps)),
                         height := std_clamp (word_of_int h)
                                     (height (minImageExtent caps)) (height (maxImageExtent caps)) \<rparr>)
         else extent)"

text \<open>Lines 438 to 467: the creation request handed to \<open>vkCreateSwapchainKHR\<close>.\<close>

definition swapchain_info ::
  "VkSurfaceFormatKHR \<Rightarrow> VkPresentModeKHR \<Rightarrow> VkSurfaceCapabilitiesKHR \<Rightarrow> int \<times> int
     \<Rightarrow> u32 list \<Rightarrow> vkhandle \<Rightarrow> VkSwapchainCreateInfoKHR" where
  "swapchain_info fmt presentMode caps fb aQueueFamilyIndices aOldSwapchain =
     \<lparr> info_minImageCount = select_image_count caps,
       info_imageFormat = format fmt,
       info_imageColorSpace = colorSpace fmt,
       info_imageExtent = resolve_extent caps fb,
       info_presentMode = presentMode,
       info_oldSwapchain = aOldSwapchain,
       info_imageSharingMode =
         (if length aQueueFamilyIndices \<le> 1
          then VK_SHARING_MODE_EXCLUSIVE else VK_SHARING_MODE_CONCURRENT),
       info_queueFamilyIndices =
         (if length aQueueFamilyIndices \<le> 1 then [] else aQueueFamilyIndices) \<rparr>"

definition create_swapchain ::
  "Platform \<Rightarrow> u32 list \<Rightarrow> vkhandle \<Rightarrow> Error + (vkhandle \<times> VkFormat \<times> VkExtent2D)" where
  "create_swapchain p aQueueFamilyIndices aOldSwapchain =
     (case get_surface_formats p of
        Inl e \<Rightarrow> Inl e
      | Inr formats \<Rightarrow>
     (case get_present_modes p of
        Inl e \<Rightarrow> Inl e
      | Inr modes \<Rightarrow>
     (case select_format formats of
        Inl e \<Rightarrow> Inl e
      | Inr fmt \<Rightarrow>
     (if capabilitiesResult p \<noteq> VK_SUCCESS
      then Inl (Error ''vkGetPhysicalDeviceSurfaceCapabilitiesKHR'' (capabilitiesResult p))
      else
        (let swapchainInfo =
               swapchain_info fmt (select_present_mode modes) (surfaceCapabilities p)
                 (framebufferSize p) aQueueFamilyIndices aOldSwapchain
         in case createSwapchain p swapchainInfo of
              (res, swapchain) \<Rightarrow>
                if res \<noteq> VK_SUCCESS then Inl (Error ''vkCreateSwapchainKHR'' res)
                else Inr (swapchain, format fmt, info_imageExtent swapchainInfo))))))"

section \<open>\<open>recreate_swapchain\<close> (labutils/vulkan_window.cpp, lines 281 to 331)\<close>

text \<open>
  Modelled from the spec: the declaration of \<open>VulkanWindow\<close> (vulkan_window.hpp) is not
  among the sources. The record is the swapchain state of the specification (chain handle,
  pixel format, extent, image handles, one view per image) under the names that
  vulkan_window.cpp uses for its fields, with the two queue family indices that
  \<open>recreate_swapchain\<close> reads.
\<close>

record VulkanWindow =
  swapchain :: vkhandle
  swapchainFormat :: VkFormat
  swapchainExtent :: VkExtent2D
  swapImages :: "vkhandle list"
  swapViews :: "vkhandle list"
  graphicsFamilyIndex :: u32
  presentFamilyIndex :: u32

record SwapChanges =
  changedSize :: bool
  changedFormat :: bool

text \<open>
  \<open>get_swapchain_images\<close>, lines 479 to 500. A failed query is printed and the function
  returns normally: after the first failure the vector is untouched, after the second it
  has been resized to the reported count and holds null handles.
\<close>

definition get_swapchain_images :: "Platform \<Rightarrow> vkhandle \<Rightarrow> vkhandle list \<Rightarrow> Error + vkhandle list" where
  "get_swapchain_images p aSwapchain aImages =
     (if aImages \<noteq> [] then Inl (AssertionFailed ''0 == aImages.size()'')
      else if imagesEnumResult p \<noteq> VK_SUCCESS then Inr aImages
      else if imagesGetResult p \<noteq> VK_SUCCESS
      then Inr (replicate (length (swapchainImages p aSwapchain)) 0)
      else Inr (swapchainImages p aSwapchain))"

text \<open>
  \<open>create_swapchain_image_views\<close>, lines 501 to 538. The views are appended to the caller's
  vector one by one, so a throw in the middle leaves the views created so far in it.
\<close>

fun image_views_loop :: "Platform \<Rightarrow> vkhandle list \<Rightarrow> vkhandle list \<Rightarrow> Error option \<times> vkhandle list" where
  "image_views_loop p [] aViews = (None, aViews)"
| "image_views_loop p (img # rest) aViews =
     (case createImageView p img of
        (res, imageView) \<Rightarrow>
          if res \<noteq> VK_SUCCESS then (Some (Error ''vkCreateImageView'' res), aViews)
          else image_views_loop p rest (aViews @ [imageView]))"

definition create_swapchain_image_views ::
  "Platform \<Rightarrow> vkhandle list \<Rightarrow> vkhandle list \<Rightarrow> Error option \<times> vkhandle list" where
  "create_swapchain_image_views p aImages aViews =
     (if aViews \<noteq> [] then (Some (AssertionFailed ''0 == aViews.size()''), aViews)
      else case image_views_loop p aImages aViews of
             (Some e, views) \<Rightarrow> (Some e, views)
           | (None, views) \<Rightarrow>
               if length views \<noteq> length aImages
               then (Some (AssertionFailed ''aViews.size() == aImages.size()''), views)
               else (None, views))"

text \<open>
  \<open>recreate_swapchain\<close> changes the window through a reference, so the window is returned
  on both paths: beside the \<open>SwapChanges\<close> when the call returns, beside the error when it
  throws. \<open>vkDestroyImageView\<close> and \<open>vkDestroySwapchainKHR\<close> return nothing to the program.
  Lines 294 to 299 build the queue family list: both families when they differ, none otherwise.
\<close>

definition window_queue_families :: "VulkanWindow \<Rightarrow> u32 list" where
  "window_queue_families aWindow =
     (if presentFamilyIndex aWindow \<noteq> graphicsFamilyIndex aWindow
      then [graphicsFamilyIndex aWindow, presentFamilyIndex aWindow] else [])"

definition recreate_swapchain :: "Platform \<Rightarrow> VulkanWindow \<Rightarrow> (Error + SwapChanges) \<times> VulkanWindow" where
  "recreate_swapchain p aWindow =
     (let oldFormat = swapchainFormat aWindow;
          oldExtent = swapchainExtent aWindow;
          oldSwapchain = swapchain aWindow;
          aWindow = aWindow\<lparr> swapViews := [], swapImages := [] \<rparr>;
          queueFamilyIndices = window_queue_families aWindow
      in case create_swapchain p queueFamilyIndices oldSwapchain of
           Inl e \<Rightarrow> (Inl e, aWindow\<lparr> swapchain := oldSwapchain \<rparr>)
         | Inr (newSwapchain, newFormat, newExtent) \<Rightarrow>
             (let aWindow = aWindow\<lparr> swapchain := newSwapchain, swapchainFormat := newFormat,
                                     swapchainExtent := newExtent \<rparr>
              in case get_swapchain_images p (swapchain aWindow) (swapImages aWindow) of
                   Inl e \<Rightarrow> (Inl e, aWindow)
                 | Inr images \<Rightarrow>
                     (let aWindow = aWindow\<lparr> swapImages := images \<rparr>
                      in case create_swapchain_image_views p (swapImages aWindow) (swapViews aWindow) of
                           (Some e, views) \<Rightarrow> (Inl e, aWindow\<lparr> swapViews := views \<rparr>)
                         | (None, views) \<Rightarrow>
                             (Inr \<lparr> changedSize =
                                      (width oldExtent \<noteq> width (swapchainExtent aWindow)
                                       \<or> height oldExtent \<noteq> height (swapchainExtent aWindow)),
                                    changedFormat = (oldFormat \<noteq> swapchainFormat aWindow) \<rparr>,
                              aWindow\<lparr> swapViews := views \<rparr>))))"

section \<open>The frame loop of exercise 3 (exercise3/main.cpp, lines 67 to 217)\<close>

text \<open>
  The objects the loop owns. The wrapper classes \<open>lut::RenderPass\<close>, \<open>lut::Pipeline\<close>,
  \<open>lut::Framebuffer\<close> and \<open>lut::Fence\<close> are declared in a header that is not among the
  sources; the loop uses their \<open>handle\<close> only. The other fields below record what the
  creating call was given: a render pass remembers the attachment format it was built
  for, a pipeline the extent baked into its viewport and scissor, a framebuffer its render
  pass, attachments and size. A fence carries its device-side state: whether it is
  signalled, and how many submissions that will signal it have not been waited for.
\<close>

record RenderPass =
  rp_handle :: vkhandle
  rp_format :: VkFormat

record Pipeline =
  pipe_handle :: vkhandle
  pipe_extent :: VkExtent2D

record Framebuffer =
  fb_handle :: vkhandle
  fb_renderPass :: vkhandle
  fb_attachments :: "vkhandle list"
  fb_extent :: VkExtent2D

record Fence =
  fence_handle :: vkhandle
  signaled :: bool
  in_flight :: nat

record App =
  window :: VulkanWindow
  renderPass :: RenderPass
  pipe :: Pipeline
  framebuffers :: "Framebuffer list"
  cbuffers :: "vkhandle list"
  cbfences :: "Fence list"
  recreateSwapchain :: bool

text \<open>
  What the window system and the driver answer during one iteration of the loop. The
  answers to the calls inside \<open>recreate_swapchain\<close> are the \<open>platform\<close> field.
\<close>

record Tick =
  windowShouldClose :: bool
  platform :: Platform
  createRenderPassResult :: "VkResult \<times> vkhandle"
  createPipelineResult :: "VkResult \<times> vkhandle"
  createAlphaPipelineResult :: "VkResult \<times> vkhandle"
  createDepthImageResult :: "VkResult \<times> vkhandle"
  createDepthViewResult :: "VkResult \<times> vkhandle"
  createFramebufferResult :: "vkhandle list \<Rightarrow> VkResult \<times> vkhandle"
  allocCommandBufferResult :: "nat \<Rightarrow> VkResult \<times> vkhandle"
  createFenceResult :: "nat \<Rightarrow> VkResult \<times> vkhandle"
  acquireResult :: VkResult
  acquireIndex :: u32
  waitFenceResult :: VkResult
  resetFenceResult :: VkResult
  beginCommandBufferResult :: VkResult
  endCommandBufferResult :: VkResult
  queueSubmitResult :: VkResult
  presentResult :: VkResult

text \<open>The calls an iteration makes, in order; the number is the frame slot or image index.\<close>

datatype Event =
    PollEvents
  | DeviceWaitIdle
  | RecreateSwapchain
  | CreateRenderPass
  | CreatePipeline
  | CreateAlphaPipeline
  | CreateDepthBuffer
  | CreateFramebuffers
  | AcquireNextImage
  | WaitForFences nat
  | ResetFences nat
  | RecordCommands nat
  | SubmitCommands nat
  | QueuePresent nat

text \<open>
  A piece of the loop body either runs to its end, throws, or never returns: a
  \<open>vkWaitForFences\<close> with an unbounded timeout on a fence that is not signalled and that
  no submission will signal blocks for ever.
\<close>

datatype Flow = Ok | Raise Error | Blocked

type_synonym 's prog = "'s \<Rightarrow> Flow \<times> 's \<times> Event list"

definition and_then :: "'s prog \<Rightarrow> 's prog \<Rightarrow> 's prog" where
  "and_then f g s =
     (case f s of
        (Ok, s', evs) \<Rightarrow> (case g s' of (r, s'', evs') \<Rightarrow> (r, s'', evs @ evs'))
      | (r, s', evs) \<Rightarrow> (r, s', evs))"

definition assert_prog :: "bool \<Rightarrow> string \<Rightarrow> 's prog" where
  "assert_prog b msg s = (if b then (Ok, s, []) else (Raise (AssertionFailed msg), s, []))"

subsection \<open>The builders the loop calls\<close>

text \<open>\<open>create_render_pass\<close>, lines 237 to 279: the attachment takes the swapchain format.\<close>

definition create_render_pass :: "Tick \<Rightarrow> VulkanWindow \<Rightarrow> Error + RenderPass" where
  "create_render_pass t aWindow =
     (case createRenderPassResult t of
        (res, rpass) \<Rightarrow>
          if res \<noteq> VK_SUCCESS then Inl (Error ''vkCreateRenderPass'' res)
          else Inr \<lparr> rp_handle = rpass, rp_format = swapchainFormat aWindow \<rparr>)"

text \<open>
  \<open>create_triangle_pipeline\<close>, lines 302 to 417: viewport and scissor are static state
  set from the swapchain extent. Loading the two shader modules and creating the pipeline
  are one step that may fail.
\<close>

definition create_triangle_pipeline :: "Tick \<Rightarrow> VulkanWindow \<Rightarrow> Error + Pipeline" where
  "create_triangle_pipeline t aWindow =
     (case createPipelineResult t of
        (res, pipeline) \<Rightarrow>
          if res \<noteq> VK_SUCCESS then Inl (Error ''vkCreateGraphicsPipelines'' res)
          else Inr \<lparr> pipe_handle = pipeline, pipe_extent = swapchainExtent aWindow \<rparr>)"

text \<open>
  \<open>create_swapchain_framebuffers\<close>, lines 419 to 454: one framebuffer per swapchain view,
  appended to the caller's vector; \<open>extra\<close> are the attachments after the swapchain view
  (none in exercise 3, the depth view in exercise 4).
\<close>

fun framebuffers_loop ::
  "Tick \<Rightarrow> VulkanWindow \<Rightarrow> vkhandle \<Rightarrow> vkhandle list \<Rightarrow> vkhandle list \<Rightarrow> Framebuffer list
     \<Rightarrow> Error option \<times> Framebuffer list" where
  "framebuffers_loop t aWindow aRenderPass extra [] aFramebuffers = (None, aFramebuffers)"
| "framebuffers_loop t aWindow aRenderPass extra (view # rest) aFramebuffers =
     (case createFramebufferResult t (view # extra) of
        (res, framebuffer) \<Rightarrow>
          if res \<noteq> VK_SUCCESS then (Some (Error ''vkCreateFramebuffer'' res), aFramebuffers)
          else framebuffers_loop t aWindow aRenderPass extra rest
                 (aFramebuffers @ [\<lparr> fb_handle = framebuffer, fb_renderPass = aRenderPass,
                                      fb_attachments = view # extra,
                                      fb_extent = swapchainExtent aWindow \<rparr>]))"

definition create_swapchain_framebuffers ::
  "Tick \<Rightarrow> VulkanWindow \<Rightarrow> vkhandle \<Rightarrow> vkhandle list \<Rightarrow> Framebuffer list
     \<Rightarrow> Error option \<times> Framebuffer list" where
  "create_swapchain_framebuffers t aWindow aRenderPass extra aFramebuffers =
     (if aFramebuffers \<noteq> [] then (Some (AssertionFailed ''aFramebuffers.empty()''), aFramebuffers)
      else case framebuffers_loop t aWindow aRenderPass extra (swapViews aWindow) aFramebuffers of
             (Some e, fbs) \<Rightarrow> (Some e, fbs)
           | (None, fbs) \<Rightarrow>
               if length (swapViews aWindow) \<noteq> length fbs
               then (Some (AssertionFailed ''aWindow.swapViews.size() == aFramebuffers.size()''), fbs)
               else (None, fbs))"

subsection \<open>The recreation branch, lines 115 to 132\<close>

text \<open>
  \<open>vkDeviceWaitIdle\<close> returns when every submission has finished, so every fence with a
  submission in flight is signalled afterwards. The loop ignores its result.
\<close>

definition device_wait_idle :: "Fence list \<Rightarrow> Fence list" where
  "device_wait_idle fences =
     map (\<lambda>f. if in_flight f > 0 then f\<lparr> signaled := True, in_flight := 0 \<rparr> else f) fences"

definition wait_idle_step :: "'a App_scheme prog" where
  "wait_idle_step app = (Ok, app\<lparr> cbfences := device_wait_idle (cbfences app) \<rparr>, [DeviceWaitIdle])"

definition render_pass_step :: "Tick \<Rightarrow> SwapChanges \<Rightarrow> 'a App_scheme prog" where
  "render_pass_step t changes app =
     (if changedFormat changes
      then (case create_render_pass t (window app) of
              Inl e \<Rightarrow> (Raise e, app, [CreateRenderPass])
            | Inr rp \<Rightarrow> (Ok, app\<lparr> renderPass := rp \<rparr>, [CreateRenderPass]))
      else (Ok, app, []))"

definition framebuffers_step :: "Tick \<Rightarrow> vkhandle list \<Rightarrow> 'a App_scheme prog" where
  "framebuffers_step t extra app =
     (case create_swapchain_framebuffers t (window app) (rp_handle (renderPass app)) extra [] of
        (Some e, fbs) \<Rightarrow> (Raise e, app\<lparr> framebuffers := fbs \<rparr>, [CreateFramebuffers])
      | (None, fbs) \<Rightarrow> (Ok, app\<lparr> framebuffers := fbs \<rparr>, [CreateFramebuffers]))"

definition pipeline_step :: "Tick \<Rightarrow> SwapChanges \<Rightarrow> 'a App_scheme prog" where
  "pipeline_step t changes app =
     (if changedSize changes
      then (case create_triangle_pipeline t (window app) of
              Inl e \<Rightarrow> (Raise e, app, [CreatePipeline])
            | Inr pl \<Rightarrow> (Ok, app\<lparr> pipe := pl \<rparr>, [CreatePipeline]))
      else (Ok, app, []))"

definition clear_flag_step :: "'a App_scheme prog" where
  "clear_flag_step app = (Ok, app\<lparr> recreateSwapchain := False \<rparr>, [])"

definition recreate_step :: "Tick \<Rightarrow> (SwapChanges \<Rightarrow> 'a App_scheme prog) \<Rightarrow> 'a App_scheme prog" where
  "recreate_step t rest app =
     (case recreate_swapchain (platform t) (window app) of
        (Inl e, w) \<Rightarrow> (Raise e, app\<lparr> window := w \<rparr>, [RecreateSwapchain])
      | (Inr changes, w) \<Rightarrow>
          (case rest changes (app\<lparr> window := w \<rparr>) of
             (r, app', evs) \<Rightarrow> (r, app', RecreateSwapchain # evs)))"

definition recreate_branch :: "Tick \<Rightarrow> App prog" where
  "recreate_branch t =
     and_then wait_idle_step
       (recreate_step t (\<lambda>changes.
          and_then (render_pass_step t changes)
         (and_then (framebuffers_step t [])
         (and_then (pipeline_step t changes)
                   clear_flag_step))))"

subsection \<open>Acquire, wait, record, submit, present: lines 134 to 209\<close>

text \<open>
  Line 157: the wait returns only once the fence is signalled. A fence that is neither
  signalled nor the target of a submission never is; the call then blocks.
\<close>

definition wait_for_fence :: "Tick \<Rightarrow> nat \<Rightarrow> 'a App_scheme prog" where
  "wait_for_fence t imageIndex app =
     (let f = cbfences app ! imageIndex
      in if \<not> signaled f \<and> in_flight f = 0 then (Blocked, app, [WaitForFences imageIndex])
         else if waitFenceResult t \<noteq> VK_SUCCESS
         then (Raise (Error ''vkWaitForFences'' (waitFenceResult t)), app, [WaitForFences imageIndex])
         else (Ok, app\<lparr> cbfences := (cbfences app)[imageIndex := f\<lparr> signaled := True, in_flight := 0 \<rparr>] \<rparr>,
               [WaitForFences imageIndex]))"

text \<open>Line 163.\<close>

definition reset_fence :: "Tick \<Rightarrow> nat \<Rightarrow> 'a App_scheme prog" where
  "reset_fence t imageIndex app =
     (if resetFenceResult t \<noteq> VK_SUCCESS
      then (Raise (Error ''vkResetFences'' (resetFenceResult t)), app, [ResetFences imageIndex])
      else (Ok, app\<lparr> cbfences := (cbfences app)[imageIndex := (cbfences app ! imageIndex)\<lparr> signaled := False \<rparr>] \<rparr>,
            [ResetFences imageIndex]))"

text \<open>\<open>record_commands\<close>, lines 456 to 512: begin and end of the recording may fail.\<close>

definition record_commands :: "Tick \<Rightarrow> nat \<Rightarrow> 'a App_scheme prog" where
  "record_commands t imageIndex app =
     (if beginCommandBufferResult t \<noteq> VK_SUCCESS
      then (Raise (Error ''vkBeginCommandBuffer'' (beginCommandBufferResult t)), app,
            [RecordCommands imageIndex])
      else if endCommandBufferResult t \<noteq> VK_SUCCESS
      then (Raise (Error ''vkEndCommandBuffer'' (endCommandBufferResult t)), app,
            [RecordCommands imageIndex])
      else (Ok, app, [RecordCommands imageIndex]))"

text \<open>
  \<open>submit_commands\<close>, lines 513 to 536: one submission that signals the slot's fence when
  it completes.
\<close>

definition submit_commands :: "Tick \<Rightarrow> nat \<Rightarrow> 'a App_scheme prog" where
  "submit_commands t imageIndex app =
     (if queueSubmitResult t \<noteq> VK_SUCCESS
      then (Raise (Error ''vkQueueSubmit'' (queueSubmitResult t)), app, [SubmitCommands imageIndex])
      else (Ok, app\<lparr> cbfences := (cbfences app)[imageIndex :=
                         (cbfences app ! imageIndex)\<lparr> in_flight := Suc (in_flight (cbfences app ! imageIndex)) \<rparr>] \<rparr>,
            [SubmitCommands imageIndex]))"

text \<open>Lines 187 to 209.\<close>

definition present_image :: "Tick \<Rightarrow> nat \<Rightarrow> 'a App_scheme prog" where
  "present_image t imageIndex app =
     (if presentResult t = VK_SUBOPTIMAL_KHR \<or> presentResult t = VK_ERROR_OUT_OF_DATE_KHR
      then (Ok, app\<lparr> recreateSwapchain := True \<rparr>, [QueuePresent imageIndex])
      else if presentResult t \<noteq> VK_SUCCESS
      then (Raise (Error ''vkQueuePresentKHR'' (presentResult t)), app, [QueuePresent imageIndex])
      else (Ok, app, [QueuePresent imageIndex]))"

text \<open>Lines 155 to 209, once an image index has been acquired.\<close>

definition render_frame :: "Tick \<Rightarrow> nat \<Rightarrow> 'a App_scheme prog" where
  "render_frame t imageIndex app =
     and_then (assert_prog (imageIndex < length (cbfences app)) ''imageIndex < cbfences.size()'')
    (and_then (wait_for_fence t imageIndex)
    (and_then (reset_fence t imageIndex)
    (and_then (assert_prog (imageIndex < length (cbuffers app)) ''imageIndex < cbuffers.size()'')
    (and_then (assert_prog (imageIndex < length (framebuffers app)) ''imageIndex < framebuffers.size()'')
    (and_then (record_commands t imageIndex)
    (and_then (submit_commands t imageIndex)
              (present_image t imageIndex))))))) app"

text \<open>Lines 134 to 153: a stale swapchain sets the flag and ends the iteration.\<close>

definition frame_branch :: "Tick \<Rightarrow> 'a App_scheme prog" where
  "frame_branch t app =
     (if acquireResult t = VK_SUBOPTIMAL_KHR \<or> acquireResult t = VK_ERROR_OUT_OF_DATE_KHR
      then (Ok, app\<lparr> recreateSwapchain := True \<rparr>, [AcquireNextImage])
      else if acquireResult t \<noteq> VK_SUCCESS
      then (Raise (Error ''vkAcquireNextImageKHR'' (acquireResult t)), app, [AcquireNextImage])
      else (case render_frame t (unat (acquireIndex t)) app of
              (r, app', evs) \<Rightarrow> (r, app', AcquireNextImage # evs)))"

text \<open>The loop body, lines 112 to 209.\<close>

definition loop_body :: "Tick \<Rightarrow> App prog" where
  "loop_body t app =
     (case (if recreateSwapchain app then recreate_branch t app else frame_branch t app) of
        (r, app', evs) \<Rightarrow> (r, app', PollEvents # evs))"

text \<open>
  The loop, lines 102 to 210, run against the answers of a finite number of iterations.
  It ends when the window is to be closed, when the body throws, or when the body blocks;
  \<open>Running\<close> says that the answers ran out with the loop still going.
\<close>

datatype Status = Running | Exited | Fatal Error | Hung

fun run_loop :: "Tick list \<Rightarrow> App \<Rightarrow> Status \<times> App \<times> Event list" where
  "run_loop [] app = (Running, app, [])"
| "run_loop (t # ts) app =
     (if windowShouldClose t then (Exited, app, [])
      else case loop_body t app of
             (Ok, app', evs) \<Rightarrow> (case run_loop ts app' of (st, app'', evs') \<Rightarrow> (st, app'', evs @ evs'))
           | (Raise e, app', evs) \<Rightarrow> (Fatal e, app', evs)
           | (Blocked, app', evs) \<Rightarrow> (Hung, app', evs))"

subsection \<open>Start-up: the swapchain of the window and the frame slots\<close>

text \<open>
  \<open>make_vulkan_window\<close>, lines 270 to 275 of labutils/vulkan_window.cpp: the first
  swapchain has no predecessor. Device and queue selection come before and are not
  modelled; the queue family indices they produce are a parameter.
\<close>

definition make_vulkan_window :: "Platform \<Rightarrow> u32 list \<Rightarrow> VulkanWindow \<Rightarrow> Error + VulkanWindow" where
  "make_vulkan_window p queueFamilyIndices ret =
     (case create_swapchain p queueFamilyIndices 0 of
        Inl e \<Rightarrow> Inl e
      | Inr (newSwapchain, newFormat, newExtent) \<Rightarrow>
          (let ret = ret\<lparr> swapchain := newSwapchain, swapchainFormat := newFormat,
                           swapchainExtent := newExtent \<rparr>
           in case get_swapchain_images p (swapchain ret) (swapImages ret) of
                Inl e \<Rightarrow> Inl e
              | Inr images \<Rightarrow>
                  (let ret = ret\<lparr> swapImages := images \<rparr>
                   in case create_swapchain_image_views p (swapImages ret) (swapViews ret) of
                        (Some e, views) \<Rightarrow> Inl e
                      | (None, views) \<Rightarrow> Inr (ret\<lparr> swapViews := views \<rparr>))))"

text \<open>
  exercise3/main.cpp, lines 87 to 94: one command buffer and one fence, created signalled,
  for every framebuffer. \<open>alloc_command_buffer\<close> and \<open>create_fence\<close> throw when the driver
  refuses.
\<close>

fun frame_slots_loop ::
  "Tick \<Rightarrow> nat \<Rightarrow> nat \<Rightarrow> vkhandle list \<Rightarrow> Fence list \<Rightarrow> Error + (vkhandle list \<times> Fence list)" where
  "frame_slots_loop t i 0 cbs fences = Inr (cbs, fences)"
| "frame_slots_loop t i (Suc n) cbs fences =
     (case allocCommandBufferResult t i of
        (res, commandBuffer) \<Rightarrow>
          if res \<noteq> VK_SUCCESS then Inl (Error ''vkAllocateCommandBuffers'' res)
          else (case createFenceResult t i of
                  (res', fence) \<Rightarrow>
                    if res' \<noteq> VK_SUCCESS then Inl (Error ''vkCreateFence'' res')
                    else frame_slots_loop t (Suc i) n (cbs @ [commandBuffer])
                           (fences @ [\<lparr> fence_handle = fence, signaled = True, in_flight = 0 \<rparr>])))"

text \<open>
  exercise3/main.cpp, lines 70 to 100, from the window on. Pipeline layout, command pool
  and the two semaphores are created here as well; they play no part in what follows.
\<close>

definition main_startup :: "Tick \<Rightarrow> VulkanWindow \<Rightarrow> Error + App" where
  "main_startup t win =
     (case create_render_pass t win of
        Inl e \<Rightarrow> Inl e
      | Inr rp \<Rightarrow>
     (case create_triangle_pipeline t win of
        Inl e \<Rightarrow> Inl e
      | Inr pl \<Rightarrow>
     (case create_swapchain_framebuffers t win (rp_handle rp) [] [] of
        (Some e, fbs) \<Rightarrow> Inl e
      | (None, fbs) \<Rightarrow>
     (case frame_slots_loop t 0 (length fbs) [] [] of
        Inl e \<Rightarrow> Inl e
      | Inr (cbs, fences) \<Rightarrow>
          Inr \<lparr> window = win, renderPass = rp, pipe = pl, framebuffers = fbs,
                cbuffers = cbs, cbfences = fences, recreateSwapchain = False \<rparr>))))"

section \<open>The recreation branch of exercise 4 (exercise4/main.cpp, lines 359 to 382)\<close>

record DepthBuffer =
  db_image :: vkhandle
  db_view :: vkhandle
  db_extent :: VkExtent2D

record App4 = App +
  alphaPipeline :: Pipeline
  depthBuffer :: DepthBuffer

text \<open>\<open>create_pipeline\<close>, lines 720 to 874, and \<open>create_alpha_pipeline\<close>, lines 875 to 1035.\<close>

definition create_pipeline :: "Tick \<Rightarrow> VulkanWindow \<Rightarrow> Error + Pipeline" where
  "create_pipeline t aWindow =
     (case createPipelineResult t of
        (res, pipeline) \<Rightarrow>
          if res \<noteq> VK_SUCCESS then Inl (Error ''vkCreateGraphicsPipelines'' res)
          else Inr \<lparr> pipe_handle = pipeline, pipe_extent = swapchainExtent aWindow \<rparr>)"

definition create_alpha_pipeline :: "Tick \<Rightarrow> VulkanWindow \<Rightarrow> Error + Pipeline" where
  "create_alpha_pipeline t aWindow =
     (case createAlphaPipelineResult t of
        (res, pipeline) \<Rightarrow>
          if res \<noteq> VK_SUCCESS then Inl (Error ''vkCreateGraphicsPipelines'' res)
          else Inr \<lparr> pipe_handle = pipeline, pipe_extent = swapchainExtent aWindow \<rparr>)"

text \<open>\<open>create_depth_buffer\<close>, lines 1037 to 1099: image and view, sized to the swapchain extent.\<close>

definition create_depth_buffer :: "Tick \<Rightarrow> VulkanWindow \<Rightarrow> Error + DepthBuffer" where
  "create_depth_buffer t aWindow =
     (case createDepthImageResult t of
        (res, depthImage) \<Rightarrow>
          if res \<noteq> VK_SUCCESS then Inl (Error ''vmaCreateImage'' res)
          else (case createDepthViewResult t of
                  (res', imageView) \<Rightarrow>
                    if res' \<noteq> VK_SUCCESS then Inl (Error ''vkCreateImageView'' res')
                    else Inr \<lparr> db_image = depthImage, db_view = imageView,
                               db_extent = swapchainExtent aWindow \<rparr>))"

text \<open>Lines 370 to 375: both pipelines and the depth buffer, only when the size changed.\<close>

definition resize_step4 :: "Tick \<Rightarrow> SwapChanges \<Rightarrow> App4 prog" where
  "resize_step4 t changes app =
     (if changedSize changes
      then (case create_pipeline t (window app) of
              Inl e \<Rightarrow> (Raise e, app, [CreatePipeline])
            | Inr pl \<Rightarrow>
          (case create_alpha_pipeline t (window app) of
              Inl e \<Rightarrow> (Raise e, app\<lparr> pipe := pl \<rparr>, [CreatePipeline, CreateAlphaPipeline])
            | Inr apl \<Rightarrow>
          (case create_depth_buffer t (window app) of
              Inl e \<Rightarrow> (Raise e, app\<lparr> pipe := pl, alphaPipeline := apl \<rparr>,
                        [CreatePipeline, CreateAlphaPipeline, CreateDepthBuffer])
            | Inr db \<Rightarrow> (Ok, app\<lparr> pipe := pl, alphaPipeline := apl, depthBuffer := db \<rparr>,
                         [CreatePipeline, CreateAlphaPipeline, CreateDepthBuffer]))))
      else (Ok, app, []))"

text \<open>Lines 377 and 378: the framebuffers take the current depth view as second attachment.\<close>

definition framebuffers_step4 :: "Tick \<Rightarrow> App4 prog" where
  "framebuffers_step4 t app = framebuffers_step t [db_view (depthBuffer app)] app"

definition recreate_branch4 :: "Tick \<Rightarrow> App4 prog" where
  "recreate_branch4 t =
     and_then wait_idle_step
       (recreate_step t (\<lambda>changes.
          and_then (render_pass_step t changes)
         (and_then (resize_step4 t changes)
         (and_then (framebuffers_step4 t)
                   clear_flag_step))))"

section \<open>Predicates of the specification\<close>

text \<open>
  The preferred surface format in the specification's words: 8-bit SRGB with four channels
  in RGBA or BGRA order, in the SRGB-nonlinear colour space.
\<close>

definition preferred_format :: "VkSurfaceFormatKHR \<Rightarrow> bool" where
  "preferred_format f \<longleftrightarrow>
     (format f = VK_FORMAT_R8G8B8A8_SRGB \<or> format f = VK_FORMAT_B8G8R8A8_SRGB)
     \<and> colorSpace f = VK_COLOR_SPACE_SRGB_NONLINEAR_KHR"

text \<open>
  The sentinel of the specification: the surface reports \<open>(0xFFFFFFFF, 0xFFFFFFFF)\<close> as its
  current extent.
\<close>

definition undefined_extent :: "VkExtent2D \<Rightarrow> bool" where
  "undefined_extent e \<longleftrightarrow> width e = 0xFFFFFFFF \<and> height e = 0xFFFFFFFF"

text \<open>Clamping to a range in the usual sense.\<close>

definition clamp_to_range :: "u32 \<Rightarrow> u32 \<Rightarrow> u32 \<Rightarrow> u32" where
  "clamp_to_range v lo hi = max lo (min v hi)"

text \<open>
  A frame slot is in order when at most one submission for it is in flight, and none once
  its fence is signalled. A slot is usable when a wait on its fence returns.
\<close>

definition slot_ok :: "Fence \<Rightarrow> bool" where
  "slot_ok f \<longleftrightarrow> in_flight f \<le> 1 \<and> (signaled f \<longrightarrow> in_flight f = 0)"

definition slots_ok :: "Fence list \<Rightarrow> bool" where
  "slots_ok fences \<longleftrightarrow> list_all slot_ok fences"

definition will_signal :: "Fence \<Rightarrow> bool" where
  "will_signal f \<longleftrightarrow> signaled f \<or> in_flight f > 0"

text \<open>
  What a recreation pass leaves behind, given the changes \<open>recreate_swapchain\<close> reported
  and the window it produced: the flag is clear, there is one framebuffer per swapchain
  view and each has the new extent, the render pass is rebuilt for the new format exactly
  when the format changed, and the pipeline is rebuilt for the new extent exactly when the
  size changed. In exercise 4 the second pipeline and the depth buffer go with the
  pipeline.
\<close>

definition rebuilt :: "SwapChanges \<Rightarrow> VulkanWindow \<Rightarrow> 'a App_scheme \<Rightarrow> 'a App_scheme \<Rightarrow> bool" where
  "rebuilt changes w app app' \<longleftrightarrow>
     window app' = w \<and> \<not> recreateSwapchain app'
     \<and> length (framebuffers app') = length (swapViews w)
     \<and> list_all (\<lambda>fb. fb_extent fb = swapchainExtent w) (framebuffers app')
     \<and> (if changedFormat changes then rp_format (renderPass app') = swapchainFormat w
         else renderPass app' = renderPass app)
     \<and> (if changedSize changes then pipe_extent (pipe app') = swapchainExtent w
         else pipe app' = pipe app)"

definition rebuilt4 :: "SwapChanges \<Rightarrow> VulkanWindow \<Rightarrow> App4 \<Rightarrow> App4 \<Rightarrow> bool" where
  "rebuilt4 changes w app app' \<longleftrightarrow>
     rebuilt changes w app app'
     \<and> (if changedSize changes
         then pipe_extent (alphaPipeline app') = swapchainExtent w
              \<and> db_extent (depthBuffer app') = swapchainExtent w
         else alphaPipeline app' = alphaPipeline app \<and> depthBuffer app' = depthBuffer app)"

text \<open>
  A piece of the loop body run from state \<open>s\<close>: \<open>Q\<close> holds of the state it completes in,
  \<open>R\<close> of the state it throws or blocks in.
\<close>

definition post :: "'s prog \<Rightarrow> 's \<Rightarrow> ('s \<Rightarrow> bool) \<Rightarrow> ('s \<Rightarrow> bool) \<Rightarrow> bool" where
  "post f s Q R \<longleftrightarrow> (case f s of (Ok, s', evs) \<Rightarrow> Q s' | (r, s', evs) \<Rightarrow> R s')"

text \<open>The events that draw a frame.\<close>

fun frame_event :: "Event \<Rightarrow> bool" where
  "frame_event AcquireNextImage = True"
| "frame_event (WaitForFences i) = True"
| "frame_event (ResetFences i) = True"
| "frame_event (RecordCommands i) = True"
| "frame_event (SubmitCommands i) = True"
| "frame_event (QueuePresent i) = True"
| "frame_event e = False"

section \<open>Scenarios\<close>

text \<open>
  A surface with an undefined current extent, extents between 1 x 1 and 4096 x 4096, a
  800 x 600 drawable area and two formats, the second one preferred. The platform is
  parameterised by the images its swapchains hold.
\<close>

definition bgra_unorm :: VkSurfaceFormatKHR where
  "bgra_unorm = \<lparr> format = VK_FORMAT_B8G8R8A8_UNORM, colorSpace = VK_COLOR_SPACE_SRGB_NONLINEAR_KHR \<rparr>"

definition bgra_srgb :: VkSurfaceFormatKHR where
  "bgra_srgb = \<lparr> format = VK_FORMAT_B8G8R8A8_SRGB, colorSpace = VK_COLOR_SPACE_SRGB_NONLINEAR_KHR \<rparr>"

definition scenario_caps :: "u32 \<Rightarrow> u32 \<Rightarrow> VkExtent2D \<Rightarrow> VkSurfaceCapabilitiesKHR" where
  "scenario_caps lo hi cur =
     \<lparr> minImageCount = lo, maxImageCount = hi, currentExtent = cur,
       minImageExtent = \<lparr> width = 1, height = 1 \<rparr>,
       maxImageExtent = \<lparr> width = 4096, height = 4096 \<rparr> \<rparr>"

definition scenario_platform :: "vkhandle list \<Rightarrow> Platform" where
  "scenario_platform imgs =
     \<lparr> formatsEnumResult = VK_SUCCESS, formatsGetResult = VK_SUCCESS,
       surfaceFormats = [bgra_unorm, bgra_srgb],
       modesEnumResult = VK_SUCCESS, modesGetResult = VK_SUCCESS,
       presentModes = [VK_PRESENT_MODE_FIFO_KHR],
       capabilitiesResult = VK_SUCCESS,
       surfaceCapabilities = scenario_caps 2 8 \<lparr> width = 0xFFFFFFFF, height = 0xFFFFFFFF \<rparr>,
       framebufferSize = (800, 600),
       createSwapchain = (\<lambda>info. (VK_SUCCESS, info_oldSwapchain info + 10)),
       imagesEnumResult = VK_SUCCESS, imagesGetResult = VK_SUCCESS,
       swapchainImages = (\<lambda>sc. imgs),
       createImageView = (\<lambda>img. (VK_SUCCESS, 100 + img)) \<rparr>"

definition scenario_tick :: "vkhandle list \<Rightarrow> Tick" where
  "scenario_tick imgs =
     \<lparr> windowShouldClose = False, platform = scenario_platform imgs,
       createRenderPassResult = (VK_SUCCESS, 7),
       createPipelineResult = (VK_SUCCESS, 8),
       createAlphaPipelineResult = (VK_SUCCESS, 9),
       createDepthImageResult = (VK_SUCCESS, 10),
       createDepthViewResult = (VK_SUCCESS, 11),
       createFramebufferResult = (\<lambda>attachments. (VK_SUCCESS, 200 + hd attachments)),
       allocCommandBufferResult = (\<lambda>i. (VK_SUCCESS, 300 + i)),
       createFenceResult = (\<lambda>i. (VK_SUCCESS, 400 + i)),
       acquireResult = VK_SUCCESS, acquireIndex = 0,
       waitFenceResult = VK_SUCCESS, resetFenceResult = VK_SUCCESS,
       beginCommandBufferResult = VK_SUCCESS, endCommandBufferResult = VK_SUCCESS,
       queueSubmitResult = VK_SUCCESS, presentResult = VK_SUCCESS \<rparr>"

text \<open>The same platform after the drawable area has grown to 1024 x 768, with three images.\<close>

definition resized_tick :: Tick where
  "resized_tick =
     (scenario_tick [21, 22, 23])
       \<lparr> platform := (scenario_platform [21, 22, 23])\<lparr> framebufferSize := (1024, 768) \<rparr> \<rparr>"

text \<open>The window and the application state that start-up yields on a two-image swapchain.\<close>

definition scenario_window :: VulkanWindow where
  "scenario_window =
     \<lparr> swapchain = 10, swapchainFormat = VK_FORMAT_B8G8R8A8_SRGB,
       swapchainExtent = \<lparr> width = 800, height = 600 \<rparr>,
       swapImages = [21, 22], swapViews = [121, 122],
       graphicsFamilyIndex = 0, presentFamilyIndex = 0 \<rparr>"

definition scenario_app :: App where
  "scenario_app =
     \<lparr> window = scenario_window,
       renderPass = \<lparr> rp_handle = 7, rp_format = VK_FORMAT_B8G8R8A8_SRGB \<rparr>,
       pipe = \<lparr> pipe_handle = 8, pipe_extent = \<lparr> width = 800, height = 600 \<rparr> \<rparr>,
       framebuffers =
         [\<lparr> fb_handle = 321, fb_renderPass = 7, fb_attachments = [121],
            fb_extent = \<lparr> width = 800, height = 600 \<rparr> \<rparr>,
          \<lparr> fb_handle = 322, fb_renderPass = 7, fb_attachments = [122],
            fb_extent = \<lparr> width = 800, height = 600 \<rparr> \<rparr>],
       cbuffers = [300, 301],
       cbfences = [\<lparr> fence_handle = 400, signaled = True, in_flight = 0 \<rparr>,
                   \<lparr> fence_handle = 401, signaled = True, in_flight = 0 \<rparr>],
       recreateSwapchain = False \<rparr>"

text \<open>The same application after a recreation pass that found three swapchain images.\<close>

definition grown_app :: App where
  "grown_app =
     scenario_app
       \<lparr> window := scenario_window\<lparr> swapchain := 20, swapImages := [21, 22, 23],
                                     swapViews := [121, 122, 123] \<rparr>,
         framebuffers :=
           [\<lparr> fb_handle = 321, fb_renderPass = 7, fb_attachments = [121],
              fb_extent = \<lparr> width = 800, height = 600 \<rparr> \<rparr>,
            \<lparr> fb_handle = 322, fb_renderPass = 7, fb_attachments = [122],
              fb_extent = \<lparr> width = 800, height = 600 \<rparr> \<rparr>,
            \<lparr> fb_handle = 323, fb_renderPass = 7, fb_attachments = [123],
              fb_extent = \<lparr> width = 800, height = 600 \<rparr> \<rparr>] \<rparr>"

definition scenario_app4 :: App4 where
  "scenario_app4 =
     App.extend scenario_app
       (App4.fields \<lparr> pipe_handle = 9, pipe_extent = \<lparr> width = 800, height = 600 \<rparr> \<rparr>
                    \<lparr> db_image = 10, db_view = 11, db_extent = \<lparr> width = 800, height = 600 \<rparr> \<rparr>)"

section \<open>Properties of \<open>create_swapchain\<close>\<close>

lemmas scenario_defs =
  scenario_platform_def scenario_tick_def scenario_window_def scenario_app_def
  scenario_caps_def bgra_unorm_def bgra_srgb_def

lemma format_loop_find:
  "format_loop fmt formats =
     (case find preferred_format formats of None \<Rightarrow> fmt | Some f \<Rightarrow> f)"
  by (induction formats) (auto simp: preferred_format_def)

lemma create_swapchain_result:
  assumes "create_swapchain p qs old = Inr (sc, f, e)"
  shows "\<exists>fmt. select_format (surfaceFormats p) = Inr fmt \<and> f = format fmt
           \<and> e = resolve_extent (surfaceCapabilities p) (framebufferSize p)"
  using assms
  by (auto simp: create_swapchain_def get_surface_formats_def get_present_modes_def
                 swapchain_info_def Let_def
           split: sum.splits if_splits prod.splits)

lemma create_swapchain_scenario:
  "create_swapchain (scenario_platform imgs) [] old =
     Inr (old + 10, VK_FORMAT_B8G8R8A8_SRGB, \<lparr> width = 800, height = 600 \<rparr>)"
  by (simp add: create_swapchain_def scenario_defs get_surface_formats_def
                get_present_modes_def select_format_def select_present_mode_def
                swapchain_info_def resolve_extent_def std_clamp_def select_image_count_def)

lemma create_swapchain_surface_lost:
  "create_swapchain (scenario_platform imgs\<lparr> capabilitiesResult := VK_ERROR_SURFACE_LOST_KHR \<rparr>) qs old =
     Inl (Error ''vkGetPhysicalDeviceSurfaceCapabilitiesKHR'' VK_ERROR_SURFACE_LOST_KHR)"
  by (simp add: create_swapchain_def scenario_defs get_surface_formats_def
                get_present_modes_def select_format_def)

text \<open>
  Claim C9. For every non-empty list of surface formats the selection of lines 385 to 401
  succeeds and yields an entry of the list: a preferred format (8-bit SRGB, RGBA or BGRA
  order, SRGB-nonlinear colour space) when the list holds one, and the first entry of the
  list otherwise.
\<close>

theorem select_format_prefers_srgb:
  assumes "formats \<noteq> []"
  shows "\<exists>fmt. select_format formats = Inr fmt \<and> fmt \<in> set formats \<and>
           (if \<exists>f \<in> set formats. preferred_format f then preferred_format fmt
            else fmt = hd formats)"
proof (cases formats)
  case Nil
  with assms show ?thesis by simp
next
  case (Cons first rest)
  show ?thesis
  proof (cases "find preferred_format formats")
    case None
    then have "\<not> (\<exists>f \<in> set formats. preferred_format f)"
      by (simp add: find_None_iff)
    with None Cons show ?thesis
      by (simp add: select_format_def format_loop_find del: format_loop.simps)
  next
    case (Some f)
    then have "preferred_format f" "f \<in> set formats"
      by (auto simp: find_Some_iff)
    with Some Cons show ?thesis
      by (auto simp add: select_format_def format_loop_find simp del: format_loop.simps)
  qed
qed

theorem select_format_prefers_srgb_witness:
  "[bgra_unorm, bgra_srgb] \<noteq> []
   \<and> select_format [bgra_unorm, bgra_srgb] = Inr bgra_srgb
   \<and> preferred_format bgra_srgb"
  using select_format_prefers_srgb [of "[bgra_unorm, bgra_srgb]"]
  by (auto simp: preferred_format_def bgra_unorm_def bgra_srgb_def)

lemma unat_succ_u32: "(m :: u32) \<noteq> 0xFFFFFFFF \<Longrightarrow> unat (m + 1) = Suc (unat m)"
proof -
  have m1: "(0xFFFFFFFF :: u32) = - 1" by simp
  assume "m \<noteq> 0xFFFFFFFF"
  then have "m \<noteq> - 1" unfolding m1 .
  then have "1 + m \<noteq> 0" by (simp add: eq_neg_iff_add_eq_0 add.commute)
  then have "unat (1 + m) = Suc (unat m)" by (rule unatSuc)
  then show ?thesis by (simp add: add.commute)
qed

lemma image_count_value:
  "select_image_count caps =
     (let want = max 2 (minImageCount caps + 1)
      in if maxImageCount caps \<noteq> 0 \<and> maxImageCount caps < want
         then maxImageCount caps else want)"
  by (auto simp: select_image_count_def Let_def max_def word_gt_0 not_less)

lemma image_count_capped:
  "maxImageCount caps \<noteq> 0 \<Longrightarrow> select_image_count caps \<le> maxImageCount caps"
  unfolding select_image_count_def Let_def by (auto simp: word_gt_0 not_less)

lemma image_count_double_buffered:
  "maxImageCount caps = 0 \<or> 2 \<le> maxImageCount caps \<Longrightarrow> 2 \<le> select_image_count caps"
  unfolding select_image_count_def Let_def by (auto simp: word_gt_0 not_less)

lemma image_count_one_more:
  "maxImageCount caps = 0 \<or> minImageCount caps + 1 \<le> maxImageCount caps
     \<Longrightarrow> 2 < minImageCount caps + 1 \<Longrightarrow> minImageCount caps + 1 \<le> select_image_count caps"
  unfolding select_image_count_def Let_def by (auto simp: word_gt_0 not_less)

lemma image_count_at_least_min:
  "minImageCount caps \<noteq> 0xFFFFFFFF
     \<Longrightarrow> maxImageCount caps = 0 \<or> minImageCount caps \<le> maxImageCount caps
     \<Longrightarrow> minImageCount caps \<le> select_image_count caps"
  unfolding select_image_count_def Let_def
  using unat_succ_u32 [of "minImageCount caps"]
  by (auto simp: word_le_nat_alt word_less_nat_alt)

text \<open>
  Claim C8, as stated: the requested image count is at least 2, at least
  \<open>minImageCount + 1\<close> when that exceeds 2, and at most a nonzero \<open>maxImageCount\<close>. It fails
  on a surface with \<open>minImageCount = maxImageCount = 2\<close>: the cap wins and the request is
  2, below \<open>minImageCount + 1 = 3\<close>.
\<close>

theorem image_count_counterexample:
  "\<not> (2 \<le> info_minImageCount (swapchain_info bgra_srgb VK_PRESENT_MODE_FIFO_KHR
                (scenario_caps 2 2 \<lparr> width = 800, height = 600 \<rparr>) (800, 600) [] 0)
      \<and> (2 < minImageCount (scenario_caps 2 2 \<lparr> width = 800, height = 600 \<rparr>) + 1 \<longrightarrow>
           minImageCount (scenario_caps 2 2 \<lparr> width = 800, height = 600 \<rparr>) + 1
             \<le> info_minImageCount (swapchain_info bgra_srgb VK_PRESENT_MODE_FIFO_KHR
                  (scenario_caps 2 2 \<lparr> width = 800, height = 600 \<rparr>) (800, 600) [] 0))
      \<and> (maxImageCount (scenario_caps 2 2 \<lparr> width = 800, height = 600 \<rparr>) \<noteq> 0 \<longrightarrow>
           info_minImageCount (swapchain_info bgra_srgb VK_PRESENT_MODE_FIFO_KHR
                (scenario_caps 2 2 \<lparr> width = 800, height = 600 \<rparr>) (800, 600) [] 0)
             \<le> maxImageCount (scenario_caps 2 2 \<lparr> width = 800, height = 600 \<rparr>)))"
  by (simp add: swapchain_info_def select_image_count_def scenario_caps_def)

text \<open>
  Claim C8, amended. The image count handed to \<open>vkCreateSwapchainKHR\<close> is the larger of 2
  and \<open>minImageCount + 1\<close> (in 32-bit arithmetic), replaced by \<open>maxImageCount\<close> when that is
  nonzero and smaller. So it never exceeds a nonzero \<open>maxImageCount\<close>; it is at least 2
  when the surface is uncapped or its cap is at least 2; it is at least \<open>minImageCount + 1\<close>
  when the surface requires more than 2 and is uncapped or its cap allows it; and it is at
  least \<open>minImageCount\<close> when \<open>minImageCount\<close> is below \<open>0xFFFFFFFF\<close> and the surface is
  uncapped or its cap is not below \<open>minImageCount\<close>.
\<close>

theorem image_count_bounds:
  fixes caps :: VkSurfaceCapabilitiesKHR and fmt mode fb qs old
  defines "n \<equiv> info_minImageCount (swapchain_info fmt mode caps fb qs old)"
  shows "n = (let want = max 2 (minImageCount caps + 1)
              in if maxImageCount caps \<noteq> 0 \<and> maxImageCount caps < want
                 then maxImageCount caps else want)
       \<and> (maxImageCount caps \<noteq> 0 \<longrightarrow> n \<le> maxImageCount caps)
       \<and> (maxImageCount caps = 0 \<or> 2 \<le> maxImageCount caps \<longrightarrow> 2 \<le> n)
       \<and> ((maxImageCount caps = 0 \<or> minImageCount caps + 1 \<le> maxImageCount caps)
            \<and> 2 < minImageCount caps + 1 \<longrightarrow> minImageCount caps + 1 \<le> n)
       \<and> (minImageCount caps \<noteq> 0xFFFFFFFF
            \<and> (maxImageCount caps = 0 \<or> minImageCount caps \<le> maxImageCount caps)
            \<longrightarrow> minImageCount caps \<le> n)"
proof -
  have n: "n = select_image_count caps"
    by (simp add: n_def swapchain_info_def)
  show ?thesis
    unfolding n
    using image_count_value [of caps] image_count_capped [of caps]
      image_count_double_buffered [of caps] image_count_one_more [of caps]
      image_count_at_least_min [of caps]
    by blast
qed

theorem image_count_bounds_witness:
  "maxImageCount (scenario_caps 3 8 \<lparr> width = 800, height = 600 \<rparr>) \<noteq> 0
   \<and> 2 \<le> maxImageCount (scenario_caps 3 8 \<lparr> width = 800, height = 600 \<rparr>)
   \<and> minImageCount (scenario_caps 3 8 \<lparr> width = 800, height = 600 \<rparr>) + 1
        \<le> maxImageCount (scenario_caps 3 8 \<lparr> width = 800, height = 600 \<rparr>)
   \<and> 2 < minImageCount (scenario_caps 3 8 \<lparr> width = 800, height = 600 \<rparr>) + 1
   \<and> minImageCount (scenario_caps 3 8 \<lparr> width = 800, height = 600 \<rparr>) \<noteq> 0xFFFFFFFF
   \<and> info_minImageCount (swapchain_info bgra_srgb VK_PRESENT_MODE_FIFO_KHR
        (scenario_caps 3 8 \<lparr> width = 800, height = 600 \<rparr>) (800, 600) [] 0) = 4"
  using image_count_bounds [of bgra_srgb VK_PRESENT_MODE_FIFO_KHR
          "scenario_caps 3 8 \<lparr> width = 800, height = 600 \<rparr>" "(800, 600)" "[]" 0]
  by (simp add: scenario_caps_def)

lemma std_clamp_range:
  "lo \<le> hi \<Longrightarrow> std_clamp v lo hi = clamp_to_range v lo hi"
  by (auto simp: std_clamp_def clamp_to_range_def max_def min_def)

lemma clamp_to_range_bounds:
  "lo \<le> hi \<Longrightarrow> lo \<le> clamp_to_range v lo hi \<and> clamp_to_range v lo hi \<le> hi"
  by (auto simp: clamp_to_range_def max_def min_def)

lemma resolve_extent_cases:
  "resolve_extent caps (w, h) =
     (if width (currentExtent caps) = 0xFFFFFFFF
      then \<lparr> width = std_clamp (word_of_int w)
                       (width (minImageExtent caps)) (width (maxImageExtent caps)),
             height = std_clamp (word_of_int h)
                        (height (minImageExtent caps)) (height (maxImageExtent caps)) \<rparr>
      else currentExtent caps)"
  by (simp add: resolve_extent_def Let_def)

text \<open>
  Claim C3, as stated, with the sentinel of the specification, the extent
  \<open>(0xFFFFFFFF, 0xFFFFFFFF)\<close>: a surface that does not report it has its current extent
  returned verbatim. A report of \<open>(0xFFFFFFFF, 600)\<close> is not the sentinel, and yet
  \<open>create_swapchain\<close> returns the clamped drawable size 1024 x 768 for it.
\<close>

theorem extent_sentinel_counterexample:
  "\<not> undefined_extent \<lparr> width = 0xFFFFFFFF, height = 600 \<rparr>
   \<and> create_swapchain
        (scenario_platform [21, 22]
           \<lparr> surfaceCapabilities := scenario_caps 2 8 \<lparr> width = 0xFFFFFFFF, height = 600 \<rparr>,
             framebufferSize := (1024, 768) \<rparr>) [] 0
       = Inr (10, VK_FORMAT_B8G8R8A8_SRGB, \<lparr> width = 1024, height = 768 \<rparr>)
   \<and> \<lparr> width = 1024, height = 768 \<rparr> \<noteq> \<lparr> width = 0xFFFFFFFF, height = (600 :: u32) \<rparr>"
  by (simp add: undefined_extent_def create_swapchain_def scenario_defs get_surface_formats_def
                get_present_modes_def select_format_def select_present_mode_def
                swapchain_info_def resolve_extent_def std_clamp_def select_image_count_def)

text \<open>
  Claim C3, amended. Whenever \<open>create_swapchain\<close> succeeds on a surface whose minimum
  extent does not exceed its maximum extent: if the width of the reported current extent
  is \<open>0xFFFFFFFF\<close> (the height is not examined), the extent returned is the drawable-area
  size clamped component-wise to the range from \<open>minImageExtent\<close> to \<open>maxImageExtent\<close>, and
  so lies in that range; otherwise it is the reported current extent verbatim. The witness
  is scenario A: current extent \<open>(0xFFFFFFFF, 0xFFFFFFFF)\<close>, drawable area 800 x 600,
  range 1 x 1 to 4096 x 4096, resolved extent 800 x 600.
\<close>

theorem extent_resolution:
  assumes ok: "create_swapchain p qs old = Inr (sc, f, e)"
    and fb: "framebufferSize p = (w, h)"
    and wr: "width (minImageExtent (surfaceCapabilities p)) \<le> width (maxImageExtent (surfaceCapabilities p))"
    and hr: "height (minImageExtent (surfaceCapabilities p)) \<le> height (maxImageExtent (surfaceCapabilities p))"
  shows "e = (if width (currentExtent (surfaceCapabilities p)) = 0xFFFFFFFF
              then \<lparr> width = clamp_to_range (word_of_int w)
                               (width (minImageExtent (surfaceCapabilities p)))
                               (width (maxImageExtent (surfaceCapabilities p))),
                     height = clamp_to_range (word_of_int h)
                                (height (minImageExtent (surfaceCapabilities p)))
                                (height (maxImageExtent (surfaceCapabilities p))) \<rparr>
              else currentExtent (surfaceCapabilities p))
       \<and> (width (currentExtent (surfaceCapabilities p)) = 0xFFFFFFFF \<longrightarrow>
           width (minImageExtent (surfaceCapabilities p)) \<le> width e
           \<and> width e \<le> width (maxImageExtent (surfaceCapabilities p))
           \<and> height (minImageExtent (surfaceCapabilities p)) \<le> height e
           \<and> height e \<le> height (maxImageExtent (surfaceCapabilities p)))"
proof -
  from create_swapchain_result [OF ok] fb
  have e: "e = resolve_extent (surfaceCapabilities p) (w, h)" by auto
  have 1: "e = (if width (currentExtent (surfaceCapabilities p)) = 0xFFFFFFFF
              then \<lparr> width = clamp_to_range (word_of_int w)
                               (width (minImageExtent (surfaceCapabilities p)))
                               (width (maxImageExtent (surfaceCapabilities p))),
                     height = clamp_to_range (word_of_int h)
                                (height (minImageExtent (surfaceCapabilities p)))
                                (height (maxImageExtent (surfaceCapabilities p))) \<rparr>
              else currentExtent (surfaceCapabilities p))"
    unfolding e resolve_extent_cases
    by (simp add: std_clamp_range [OF wr] std_clamp_range [OF hr])
  have 2: "width (currentExtent (surfaceCapabilities p)) = 0xFFFFFFFF \<longrightarrow>
           width (minImageExtent (surfaceCapabilities p)) \<le> width e
           \<and> width e \<le> width (maxImageExtent (surfaceCapabilities p))
           \<and> height (minImageExtent (surfaceCapabilities p)) \<le> height e
           \<and> height e \<le> height (maxImageExtent (surfaceCapabilities p))"
    using 1 clamp_to_range_bounds [OF wr] clamp_to_range_bounds [OF hr] by simp
  from 1 2 show ?thesis by (rule conjI)
qed

theorem extent_resolution_witness:
  "create_swapchain (scenario_platform [21, 22]) [] 0
     = Inr (10, VK_FORMAT_B8G8R8A8_SRGB, \<lparr> width = 800, height = 600 \<rparr>)
   \<and> currentExtent (surfaceCapabilities (scenario_platform [21, 22]))
       = \<lparr> width = 0xFFFFFFFF, height = 0xFFFFFFFF \<rparr>
   \<and> framebufferSize (scenario_platform [21, 22]) = (800, 600)
   \<and> minImageExtent (surfaceCapabilities (scenario_platform [21, 22])) = \<lparr> width = 1, height = 1 \<rparr>
   \<and> maxImageExtent (surfaceCapabilities (scenario_platform [21, 22])) = \<lparr> width = 4096, height = 4096 \<rparr>
   \<and> \<lparr> width = 800, height = 600 \<rparr>
       = \<lparr> width = clamp_to_range (word_of_int 800) 1 4096,
           height = clamp_to_range (word_of_int 600) 1 (4096 :: u32) \<rparr>"
proof -
  have ok: "create_swapchain (scenario_platform [21, 22]) [] 0
     = Inr (10, VK_FORMAT_B8G8R8A8_SRGB, \<lparr> width = 800, height = 600 \<rparr>)"
    using create_swapchain_scenario [of "[21, 22]" 0] by simp
  have fb: "framebufferSize (scenario_platform [21, 22]) = (800, 600)"
    by (simp add: scenario_defs)
  have wr: "width (minImageExtent (surfaceCapabilities (scenario_platform [21, 22])))
              \<le> width (maxImageExtent (surfaceCapabilities (scenario_platform [21, 22])))"
    by (simp add: scenario_defs)
  have hr: "height (minImageExtent (surfaceCapabilities (scenario_platform [21, 22])))
              \<le> height (maxImageExtent (surfaceCapabilities (scenario_platform [21, 22])))"
    by (simp add: scenario_defs)
  from extent_resolution [OF ok fb wr hr] ok fb show ?thesis
    by (simp add: scenario_defs)
qed

text \<open>
  Claim C10. The sentinel test of \<open>create_swapchain\<close> looks at the width alone: whenever
  the call succeeds on a surface whose \<open>currentExtent.width\<close> is not \<open>0xFFFFFFFF\<close>, the
  extent returned is the reported current extent, unclamped, whatever its height; the
  witness has height \<open>0xFFFFFFFF\<close> and a range that ends at 4096.
\<close>

theorem extent_test_width_only:
  assumes "create_swapchain p qs old = Inr (sc, f, e)"
    and "width (currentExtent (surfaceCapabilities p)) \<noteq> 0xFFFFFFFF"
  shows "e = currentExtent (surfaceCapabilities p)"
proof -
  obtain w h where fb: "framebufferSize p = (w, h)"
    by (cases "framebufferSize p")
  with create_swapchain_result [OF assms(1)]
  have "e = resolve_extent (surfaceCapabilities p) (w, h)" by auto
  with assms(2) show ?thesis
    by (simp add: resolve_extent_cases)
qed

theorem extent_test_width_only_witness:
  "create_swapchain
     (scenario_platform [21, 22]
        \<lparr> surfaceCapabilities := scenario_caps 2 8 \<lparr> width = 640, height = 0xFFFFFFFF \<rparr> \<rparr>) [] 0
     = Inr (10, VK_FORMAT_B8G8R8A8_SRGB, \<lparr> width = 640, height = 0xFFFFFFFF \<rparr>)
   \<and> (640 :: u32) \<noteq> 0xFFFFFFFF
   \<and> (0xFFFFFFFF :: u32) > height (maxImageExtent (scenario_caps 2 8 \<lparr> width = 640, height = 0xFFFFFFFF \<rparr>))"
proof -
  let ?p = "scenario_platform [21, 22]
        \<lparr> surfaceCapabilities := scenario_caps 2 8 \<lparr> width = 640, height = 0xFFFFFFFF \<rparr> \<rparr>"
  have ok: "\<exists>e. create_swapchain ?p [] 0 = Inr (10, VK_FORMAT_B8G8R8A8_SRGB, e)"
    by (simp add: create_swapchain_def scenario_defs get_surface_formats_def
                  get_present_modes_def select_format_def select_present_mode_def
                  swapchain_info_def select_image_count_def)
  then obtain e where e: "create_swapchain ?p [] 0 = Inr (10, VK_FORMAT_B8G8R8A8_SRGB, e)" ..
  have "width (currentExtent (surfaceCapabilities ?p)) \<noteq> 0xFFFFFFFF"
    by (simp add: scenario_defs)
  from extent_test_width_only [OF e this] e show ?thesis
    by (simp add: scenario_defs)
qed

section \<open>Properties of \<open>recreate_swapchain\<close>\<close>

lemma image_views_loop_length:
  "image_views_loop p imgs vs = (None, vs') \<Longrightarrow> length vs' = length vs + length imgs"
  by (induction imgs arbitrary: vs) (auto split: prod.splits if_splits)

lemma create_swapchain_image_views_length:
  "create_swapchain_image_views p imgs vs = (None, vs') \<Longrightarrow> length vs' = length imgs"
  by (auto simp: create_swapchain_image_views_def split: if_splits prod.splits option.splits)

lemma recreate_swapchain_views_images:
  assumes "recreate_swapchain p w = (Inr changes, w')"
  shows "length (swapViews w') = length (swapImages w')"
  using assms
  by (auto simp: recreate_swapchain_def Let_def
           split: sum.splits prod.splits option.splits
           dest: create_swapchain_image_views_length)

lemma recreate_swapchain_changes:
  assumes "recreate_swapchain p w = (Inr changes, w')"
  shows "changedSize changes \<longleftrightarrow> swapchainExtent w' \<noteq> swapchainExtent w"
    and "changedFormat changes \<longleftrightarrow> swapchainFormat w' \<noteq> swapchainFormat w"
  using assms
  by (auto simp: recreate_swapchain_def Let_def VkExtent2D.equality
           split: sum.splits prod.splits option.splits)

lemma window_queue_families_cleared:
  "window_queue_families (w\<lparr> swapViews := vs, swapImages := imgs \<rparr>) = window_queue_families w"
  by (simp add: window_queue_families_def)

lemma recreate_swapchain_Inl:
  assumes "create_swapchain p (window_queue_families w) (swapchain w) = Inl e"
  shows "recreate_swapchain p w = (Inl e, w\<lparr> swapViews := [], swapImages := [] \<rparr>)"
  using assms by (simp add: recreate_swapchain_def Let_def window_queue_families_cleared)

lemma recreate_swapchain_cleared:
  "recreate_swapchain p (w\<lparr> swapViews := [], swapImages := [] \<rparr>) = recreate_swapchain p w"
  by (simp add: recreate_swapchain_def Let_def window_queue_families_cleared)

text \<open>
  Claim C2, as stated: when \<open>create_swapchain\<close> throws, no partial mutation of the
  swapchain state is visible to the caller. On a lost surface the window that
  \<open>recreate_swapchain\<close> leaves behind differs from the window it was given: the views were
  destroyed and both vectors cleared before the \<open>try\<close> block.
\<close>

theorem recreate_failure_counterexample:
  "fst (recreate_swapchain
          (scenario_platform [21, 22]\<lparr> capabilitiesResult := VK_ERROR_SURFACE_LOST_KHR \<rparr>)
          scenario_window)
     = Inl (Error ''vkGetPhysicalDeviceSurfaceCapabilitiesKHR'' VK_ERROR_SURFACE_LOST_KHR)
   \<and> snd (recreate_swapchain
          (scenario_platform [21, 22]\<lparr> capabilitiesResult := VK_ERROR_SURFACE_LOST_KHR \<rparr>)
          scenario_window)
     \<noteq> scenario_window"
  by (simp add: recreate_swapchain_Inl create_swapchain_surface_lost)
     (simp add: scenario_window_def)

text \<open>
  Claim C2, amended. When \<open>create_swapchain\<close> throws inside \<open>recreate_swapchain\<close>, the
  error propagates and the window is left as it was before the call except that its view
  and image vectors are empty: chain handle, format and extent are those from before the
  call. A retry is possible: on the window left behind, \<open>recreate_swapchain\<close> does exactly
  what it does on the original window.
\<close>

theorem recreate_failure_keeps_chain:
  assumes "create_swapchain p (window_queue_families w) (swapchain w) = Inl e"
  shows "recreate_swapchain p w = (Inl e, w\<lparr> swapViews := [], swapImages := [] \<rparr>)
       \<and> swapchain (snd (recreate_swapchain p w)) = swapchain w
       \<and> swapchainFormat (snd (recreate_swapchain p w)) = swapchainFormat w
       \<and> swapchainExtent (snd (recreate_swapchain p w)) = swapchainExtent w
       \<and> recreate_swapchain p' (snd (recreate_swapchain p w)) = recreate_swapchain p' w"
  using recreate_swapchain_Inl [OF assms]
  by (simp add: recreate_swapchain_cleared)

theorem recreate_failure_keeps_chain_witness:
  "create_swapchain
     (scenario_platform [21, 22]\<lparr> capabilitiesResult := VK_ERROR_SURFACE_LOST_KHR \<rparr>)
     (window_queue_families scenario_window) (swapchain scenario_window)
     = Inl (Error ''vkGetPhysicalDeviceSurfaceCapabilitiesKHR'' VK_ERROR_SURFACE_LOST_KHR)
   \<and> swapchain (snd (recreate_swapchain
        (scenario_platform [21, 22]\<lparr> capabilitiesResult := VK_ERROR_SURFACE_LOST_KHR \<rparr>)
        scenario_window)) = 10
   \<and> swapchain scenario_window = 10"
  using recreate_failure_keeps_chain
          [OF create_swapchain_surface_lost
                [of "[21, 22]" "window_queue_families scenario_window" "swapchain scenario_window"]]
        create_swapchain_surface_lost
          [of "[21, 22]" "window_queue_families scenario_window" "swapchain scenario_window"]
  by (simp add: scenario_window_def)

section \<open>Sequencing rules and the recreation branch\<close>

lemma and_then_eq_Ok:
  "and_then f g s = (Ok, s'', evs) \<longleftrightarrow>
     (\<exists>s' e1 e2. f s = (Ok, s', e1) \<and> g s' = (Ok, s'', e2) \<and> evs = e1 @ e2)"
proof (cases "f s")
  case (fields r s' e1)
  show ?thesis
  proof (cases "g s'")
    case g: (fields r2 s2 e2)
    from fields g show ?thesis
      by (cases r) (auto simp: and_then_def)
  qed
qed

lemma and_then_preserves:
  assumes f: "\<And>s r s' evs. P s \<Longrightarrow> f s = (r, s', evs) \<Longrightarrow> P s'"
    and g: "\<And>s r s' evs. P s \<Longrightarrow> g s = (r, s', evs) \<Longrightarrow> P s'"
    and "P s" and run: "and_then f g s = (r, s', evs)"
  shows "P s'"
proof (cases "f s")
  case (fields r1 s1 e1)
  with f[OF \<open>P s\<close>] have P1: "P s1" by blast
  show ?thesis
  proof (cases r1)
    case Ok
    obtain r2 s2 e2 where g2: "g s1 = (r2, s2, e2)" by (cases "g s1")
    with g[OF P1] have "P s2" by blast
    with run fields Ok g2 show ?thesis by (simp add: and_then_def)
  next
    case (Raise e)
    with run fields P1 show ?thesis by (simp add: and_then_def)
  next
    case Blocked
    with run fields P1 show ?thesis by (simp add: and_then_def)
  qed
qed

lemma and_then_events:
  assumes f: "\<And>s r s' evs. f s = (r, s', evs) \<Longrightarrow> \<forall>e \<in> set evs. E e"
    and g: "\<And>s r s' evs. g s = (r, s', evs) \<Longrightarrow> \<forall>e \<in> set evs. E e"
    and run: "and_then f g s = (r, s', evs)"
  shows "\<forall>e \<in> set evs. E e"
proof (cases "f s")
  case (fields r1 s1 e1)
  with f have E1: "\<forall>e \<in> set e1. E e" by blast
  show ?thesis
  proof (cases r1)
    case Ok
    obtain r2 s2 e2 where g2: "g s1 = (r2, s2, e2)" by (cases "g s1")
    with g have "\<forall>e \<in> set e2. E e" by blast
    with run fields Ok g2 E1 show ?thesis by (auto simp: and_then_def)
  next
    case (Raise e)
    with run fields E1 show ?thesis by (simp add: and_then_def)
  next
    case Blocked
    with run fields E1 show ?thesis by (simp add: and_then_def)
  qed
qed

lemma framebuffers_loop_ok:
  "framebuffers_loop t w rp extra views acc = (None, fbs) \<Longrightarrow>
     length fbs = length acc + length views
     \<and> (\<forall>fb \<in> set fbs. fb \<in> set acc \<or> (fb_extent fb = swapchainExtent w \<and> fb_renderPass fb = rp))"
proof (induction views arbitrary: acc)
  case Nil
  then show ?case by simp
next
  case (Cons v views)
  obtain res h where c: "createFramebufferResult t (v # extra) = (res, h)"
    by (cases "createFramebufferResult t (v # extra)")
  with Cons.prems have ok: "res = VK_SUCCESS" by (auto split: if_splits)
  let ?fb = "\<lparr> fb_handle = h, fb_renderPass = rp, fb_attachments = v # extra, fb_extent = swapchainExtent w \<rparr>"
  from Cons.prems c ok have "framebuffers_loop t w rp extra views (acc @ [?fb]) = (None, fbs)"
    by simp
  from Cons.IH[OF this] show ?case by auto
qed

lemma create_swapchain_framebuffers_ok:
  assumes "create_swapchain_framebuffers t w rp extra [] = (None, fbs)"
  shows "length fbs = length (swapViews w)"
    and "\<forall>fb \<in> set fbs. fb_extent fb = swapchainExtent w \<and> fb_renderPass fb = rp"
proof -
  from assms have "framebuffers_loop t w rp extra (swapViews w) [] = (None, fbs)"
    by (auto simp: create_swapchain_framebuffers_def split: prod.splits option.splits if_splits)
  from framebuffers_loop_ok[OF this]
  show "length fbs = length (swapViews w)"
    and "\<forall>fb \<in> set fbs. fb_extent fb = swapchainExtent w \<and> fb_renderPass fb = rp"
    by auto
qed

lemma wait_idle_step_eq:
  "wait_idle_step app = (r, app', evs) \<longleftrightarrow>
     r = Ok \<and> app' = app\<lparr> cbfences := device_wait_idle (cbfences app) \<rparr> \<and> evs = [DeviceWaitIdle]"
  by (auto simp: wait_idle_step_def)

lemma recreate_step_Ok:
  "recreate_step t rest app = (Ok, app', evs) \<longleftrightarrow>
     (\<exists>changes w evs'. recreate_swapchain (platform t) (window app) = (Inr changes, w)
        \<and> rest changes (app\<lparr> window := w \<rparr>) = (Ok, app', evs') \<and> evs = RecreateSwapchain # evs')"
  by (auto simp: recreate_step_def split: prod.splits sum.splits)

lemma render_pass_step_Ok:
  "render_pass_step t changes app = (Ok, app', evs) \<longleftrightarrow>
     (if changedFormat changes
      then (\<exists>rp. create_render_pass t (window app) = Inr rp \<and> app' = app\<lparr> renderPass := rp \<rparr>
              \<and> evs = [CreateRenderPass])
      else app' = app \<and> evs = [])"
  by (auto simp: render_pass_step_def split: sum.splits)

lemma framebuffers_step_Ok:
  "framebuffers_step t extra app = (Ok, app', evs) \<longleftrightarrow>
     (\<exists>fbs. create_swapchain_framebuffers t (window app) (rp_handle (renderPass app)) extra [] = (None, fbs)
        \<and> app' = app\<lparr> framebuffers := fbs \<rparr> \<and> evs = [CreateFramebuffers])"
  by (auto simp: framebuffers_step_def split: prod.splits option.splits)

lemma pipeline_step_Ok:
  "pipeline_step t changes app = (Ok, app', evs) \<longleftrightarrow>
     (if changedSize changes
      then (\<exists>pl. create_triangle_pipeline t (window app) = Inr pl \<and> app' = app\<lparr> pipe := pl \<rparr>
              \<and> evs = [CreatePipeline])
      else app' = app \<and> evs = [])"
  by (auto simp: pipeline_step_def split: sum.splits)

lemma clear_flag_step_eq:
  "clear_flag_step app = (r, app', evs) \<longleftrightarrow>
     r = Ok \<and> app' = app\<lparr> recreateSwapchain := False \<rparr> \<and> evs = []"
  by (auto simp: clear_flag_step_def)

lemma create_render_pass_format: "create_render_pass t w = Inr rp \<Longrightarrow> rp_format rp = swapchainFormat w"
  by (auto simp: create_render_pass_def split: prod.splits if_splits)

lemma create_triangle_pipeline_extent: "create_triangle_pipeline t w = Inr pl \<Longrightarrow> pipe_extent pl = swapchainExtent w"
  by (auto simp: create_triangle_pipeline_def split: prod.splits if_splits)

lemma recreate_branch_Ok:
  assumes "recreate_branch t app = (Ok, app', evs)"
  shows "\<exists>changes w. recreate_swapchain (platform t) (window app) = (Inr changes, w)
      \<and> window app' = w
      \<and> evs = [DeviceWaitIdle, RecreateSwapchain]
              @ (if changedFormat changes then [CreateRenderPass] else [])
              @ [CreateFramebuffers]
              @ (if changedSize changes then [CreatePipeline] else [])
      \<and> \<not> recreateSwapchain app'
      \<and> length (framebuffers app') = length (swapViews w)
      \<and> (\<forall>fb \<in> set (framebuffers app'). fb_extent fb = swapchainExtent w)
      \<and> (changedFormat changes \<longrightarrow> rp_format (renderPass app') = swapchainFormat w)
      \<and> (\<not> changedFormat changes \<longrightarrow> renderPass app' = renderPass app)
      \<and> (changedSize changes \<longrightarrow> pipe_extent (pipe app') = swapchainExtent w)
      \<and> (\<not> changedSize changes \<longrightarrow> pipe app' = pipe app)"
proof -
  from assms obtain changes w a1 a2 a3 e1 e2 e3 where
      rc: "recreate_swapchain (platform t) (window app) = (Inr changes, w)"
    and s1: "render_pass_step t changes (app\<lparr> cbfences := device_wait_idle (cbfences app), window := w \<rparr>) = (Ok, a1, e1)"
    and s2: "framebuffers_step t [] a1 = (Ok, a2, e2)"
    and s3: "pipeline_step t changes a2 = (Ok, a3, e3)"
    and fin: "app' = a3\<lparr> recreateSwapchain := False \<rparr>"
    and evs: "evs = [DeviceWaitIdle] @ RecreateSwapchain # e1 @ e2 @ e3"
    unfolding recreate_branch_def
    by (auto simp: and_then_eq_Ok wait_idle_step_eq recreate_step_Ok clear_flag_step_eq)
  from s1 have w1: "window a1 = w"
    and e1: "e1 = (if changedFormat changes then [CreateRenderPass] else [])"
    and rp1: "changedFormat changes \<longrightarrow> rp_format (renderPass a1) = swapchainFormat w"
    and rp1': "\<not> changedFormat changes \<longrightarrow> renderPass a1 = renderPass app"
    and p1: "pipe a1 = pipe app"
    by (auto simp: render_pass_step_Ok dest: create_render_pass_format split: if_splits)
  from s2 obtain fbs where
      fbs: "create_swapchain_framebuffers t (window a1) (rp_handle (renderPass a1)) [] [] = (None, fbs)"
    and a2: "a2 = a1\<lparr> framebuffers := fbs \<rparr>" and e2: "e2 = [CreateFramebuffers]"
    by (auto simp: framebuffers_step_Ok)
  note fb = create_swapchain_framebuffers_ok[OF fbs]
  from s3 a2 have w3: "window a3 = window a1" and f3: "framebuffers a3 = fbs"
    and rp3: "renderPass a3 = renderPass a1"
    and e3: "e3 = (if changedSize changes then [CreatePipeline] else [])"
    and p3: "changedSize changes \<longrightarrow> pipe_extent (pipe a3) = swapchainExtent (window a1)"
    and p3': "\<not> changedSize changes \<longrightarrow> pipe a3 = pipe a1"
    by (auto simp: pipeline_step_Ok dest: create_triangle_pipeline_extent split: if_splits)
  show ?thesis
    apply (rule exI[of _ changes], rule exI[of _ w])
    using rc fin evs w1 e1 rp1 rp1' p1 e2 fb w3 f3 rp3 e3 p3 p3'
    by simp
qed

lemma recreate_branch_always:
  assumes "recreate_branch t app = (r, app', evs)"
  shows "\<exists>evs'. evs = DeviceWaitIdle # RecreateSwapchain # evs'"
  using assms unfolding recreate_branch_def
  by (auto simp: and_then_def wait_idle_step_def recreate_step_def split: prod.splits sum.splits)

lemma render_pass_step_events:
  "render_pass_step t changes app = (r, app', evs) \<Longrightarrow> \<forall>e \<in> set evs. \<not> frame_event e"
  by (auto simp: render_pass_step_def split: if_splits sum.splits)

lemma framebuffers_step_events:
  "framebuffers_step t extra app = (r, app', evs) \<Longrightarrow> \<forall>e \<in> set evs. \<not> frame_event e"
  by (auto simp: framebuffers_step_def split: prod.splits option.splits)

lemma pipeline_step_events:
  "pipeline_step t changes app = (r, app', evs) \<Longrightarrow> \<forall>e \<in> set evs. \<not> frame_event e"
  by (auto simp: pipeline_step_def split: if_splits sum.splits)

lemma clear_flag_step_events:
  "clear_flag_step app = (r, app', evs) \<Longrightarrow> \<forall>e \<in> set evs. \<not> frame_event e"
  by (auto simp: clear_flag_step_def)

lemma wait_idle_step_events:
  "wait_idle_step app = (r, app', evs) \<Longrightarrow> \<forall>e \<in> set evs. \<not> frame_event e"
  by (auto simp: wait_idle_step_def)

lemma recreate_step_events:
  assumes rest: "\<And>changes s r s' evs. rest changes s = (r, s', evs) \<Longrightarrow> \<forall>e \<in> set evs. \<not> frame_event e"
    and run: "recreate_step t rest app = (r, app', evs)"
  shows "\<forall>e \<in> set evs. \<not> frame_event e"
proof (cases "recreate_swapchain (platform t) (window app)")
  case (Pair res w)
  show ?thesis
  proof (cases res)
    case (Inl e)
    with Pair run show ?thesis by (auto simp: recreate_step_def)
  next
    case (Inr changes)
    obtain r2 s2 e2 where c: "rest changes (app\<lparr> window := w \<rparr>) = (r2, s2, e2)"
      by (cases "rest changes (app\<lparr> window := w \<rparr>)")
    from rest[OF c] Pair Inr run c show ?thesis by (auto simp: recreate_step_def)
  qed
qed

lemma recreate_branch_no_frame:
  assumes "recreate_branch t app = (r, app', evs)"
  shows "\<forall>e \<in> set evs. \<not> frame_event e"
  using assms unfolding recreate_branch_def
  apply -
  apply (erule and_then_events [rotated 2])
   apply (erule wait_idle_step_events)
  apply (erule recreate_step_events [rotated 1])
  apply (erule and_then_events [rotated 2])
   apply (erule render_pass_step_events)
  apply (erule and_then_events [rotated 2])
   apply (erule framebuffers_step_events)
  apply (erule and_then_events [rotated 2])
   apply (erule pipeline_step_events)
  apply (erule clear_flag_step_events)
  done

lemma resize_step4_Ok:
  "resize_step4 t changes app = (Ok, app', evs) \<longleftrightarrow>
     (if changedSize changes
      then (\<exists>pl apl db. create_pipeline t (window app) = Inr pl
              \<and> create_alpha_pipeline t (window app) = Inr apl
              \<and> create_depth_buffer t (window app) = Inr db
              \<and> app' = app\<lparr> pipe := pl, alphaPipeline := apl, depthBuffer := db \<rparr>
              \<and> evs = [CreatePipeline, CreateAlphaPipeline, CreateDepthBuffer])
      else app' = app \<and> evs = [])"
  by (auto simp: resize_step4_def split: sum.splits)

lemma resize_step4_events:
  "resize_step4 t changes app = (r, app', evs) \<Longrightarrow> \<forall>e \<in> set evs. \<not> frame_event e"
  by (auto simp: resize_step4_def split: if_splits sum.splits)

lemma create_pipeline_extent: "create_pipeline t w = Inr pl \<Longrightarrow> pipe_extent pl = swapchainExtent w"
  by (auto simp: create_pipeline_def split: prod.splits if_splits)

lemma create_alpha_pipeline_extent: "create_alpha_pipeline t w = Inr pl \<Longrightarrow> pipe_extent pl = swapchainExtent w"
  by (auto simp: create_alpha_pipeline_def split: prod.splits if_splits)

lemma create_depth_buffer_extent: "create_depth_buffer t w = Inr db \<Longrightarrow> db_extent db = swapchainExtent w"
  by (auto simp: create_depth_buffer_def split: prod.splits if_splits)

lemma recreate_branch4_always:
  assumes "recreate_branch4 t app = (r, app', evs)"
  shows "\<exists>evs'. evs = DeviceWaitIdle # RecreateSwapchain # evs'"
  using assms unfolding recreate_branch4_def
  by (auto simp: and_then_def wait_idle_step_def recreate_step_def split: prod.splits sum.splits)

lemma recreate_branch4_no_frame:
  assumes "recreate_branch4 t app = (r, app', evs)"
  shows "\<forall>e \<in> set evs. \<not> frame_event e"
  using assms unfolding recreate_branch4_def framebuffers_step4_def [abs_def]
  apply -
  apply (erule and_then_events [rotated 2])
   apply (erule wait_idle_step_events)
  apply (erule recreate_step_events [rotated 1])
  apply (erule and_then_events [rotated 2])
   apply (erule render_pass_step_events)
  apply (erule and_then_events [rotated 2])
   apply (erule resize_step4_events)
  apply (erule and_then_events [rotated 2])
   apply (erule framebuffers_step_events)
  apply (erule clear_flag_step_events)
  done

lemma recreate_branch4_Ok:
  assumes "recreate_branch4 t app = (Ok, app', evs)"
  shows "\<exists>changes w. recreate_swapchain (platform t) (window app) = (Inr changes, w)
      \<and> window app' = w
      \<and> evs = [DeviceWaitIdle, RecreateSwapchain]
              @ (if changedFormat changes then [CreateRenderPass] else [])
              @ (if changedSize changes
                 then [CreatePipeline, CreateAlphaPipeline, CreateDepthBuffer] else [])
              @ [CreateFramebuffers]
      \<and> \<not> recreateSwapchain app'
      \<and> length (framebuffers app') = length (swapViews w)
      \<and> (\<forall>fb \<in> set (framebuffers app'). fb_extent fb = swapchainExtent w)
      \<and> (changedFormat changes \<longrightarrow> rp_format (renderPass app') = swapchainFormat w)
      \<and> (\<not> changedFormat changes \<longrightarrow> renderPass app' = renderPass app)
      \<and> (changedSize changes \<longrightarrow>
            pipe_extent (pipe app') = swapchainExtent w
            \<and> pipe_extent (alphaPipeline app') = swapchainExtent w
            \<and> db_extent (depthBuffer app') = swapchainExtent w)
      \<and> (\<not> changedSize changes \<longrightarrow>
            pipe app' = pipe app \<and> alphaPipeline app' = alphaPipeline app
            \<and> depthBuffer app' = depthBuffer app)"
proof -
  from assms obtain changes w a1 a2 a3 e1 e2 e3 where
      rc: "recreate_swapchain (platform t) (window app) = (Inr changes, w)"
    and s1: "render_pass_step t changes (app\<lparr> cbfences := device_wait_idle (cbfences app), window := w \<rparr>) = (Ok, a1, e1)"
    and s2: "resize_step4 t changes a1 = (Ok, a2, e2)"
    and s3: "framebuffers_step t [db_view (depthBuffer a2)] a2 = (Ok, a3, e3)"
    and fin: "app' = a3\<lparr> recreateSwapchain := False \<rparr>"
    and evs: "evs = [DeviceWaitIdle] @ RecreateSwapchain # e1 @ e2 @ e3"
    unfolding recreate_branch4_def framebuffers_step4_def [abs_def]
    by (auto simp: and_then_eq_Ok wait_idle_step_eq recreate_step_Ok clear_flag_step_eq)
  from s1 have w1: "window a1 = w"
    and e1: "e1 = (if changedFormat changes then [CreateRenderPass] else [])"
    and rp1: "changedFormat changes \<longrightarrow> rp_format (renderPass a1) = swapchainFormat w"
    and rp1': "\<not> changedFormat changes \<longrightarrow> renderPass a1 = renderPass app"
    and p1: "pipe a1 = pipe app" "alphaPipeline a1 = alphaPipeline app" "depthBuffer a1 = depthBuffer app"
    by (auto simp: render_pass_step_Ok dest: create_render_pass_format split: if_splits)
  from s2 have w2: "window a2 = window a1" and rp2: "renderPass a2 = renderPass a1"
    and e2: "e2 = (if changedSize changes
                 then [CreatePipeline, CreateAlphaPipeline, CreateDepthBuffer] else [])"
    and p2: "changedSize changes \<longrightarrow>
            pipe_extent (pipe a2) = swapchainExtent (window a1)
            \<and> pipe_extent (alphaPipeline a2) = swapchainExtent (window a1)
            \<and> db_extent (depthBuffer a2) = swapchainExtent (window a1)"
    and p2': "\<not> changedSize changes \<longrightarrow> a2 = a1"
    by (auto simp: resize_step4_Ok split: if_splits
             dest: create_pipeline_extent create_alpha_pipeline_extent create_depth_buffer_extent)
  from s3 obtain fbs where
      fbs: "create_swapchain_framebuffers t (window a2) (rp_handle (renderPass a2)) [db_view (depthBuffer a2)] [] = (None, fbs)"
    and a3: "a3 = a2\<lparr> framebuffers := fbs \<rparr>" and e3: "e3 = [CreateFramebuffers]"
    by (auto simp: framebuffers_step_Ok)
  note fb = create_swapchain_framebuffers_ok[OF fbs]
  show ?thesis
    apply (rule exI[of _ changes], rule exI[of _ w])
    using rc fin evs w1 e1 rp1 rp1' p1 e2 fb w2 rp2 p2 p2' a3 e3
    by auto
qed

lemma platform_scenario_tick: "platform (scenario_tick imgs) = scenario_platform imgs"
  by (simp add: scenario_tick_def)

lemma window_scenario_app4: "window scenario_app4 = scenario_window"
  by (simp add: scenario_app4_def scenario_app_def App.defs App4.defs)

lemma recreate_swapchain_scenario_2:
  "recreate_swapchain (scenario_platform [21, 22]) scenario_window =
     (Inr \<lparr> changedSize = False, changedFormat = False \<rparr>,
      scenario_window\<lparr> swapchain := 20 \<rparr>)"
  apply (simp add: recreate_swapchain_def window_queue_families_def)
  apply (simp add: scenario_window_def create_swapchain_scenario)
  apply (simp add: get_swapchain_images_def create_swapchain_image_views_def scenario_platform_def scenario_window_def)
  done

lemma recreate_swapchain_scenario_3:
  "recreate_swapchain (scenario_platform [21, 22, 23]) scenario_window =
     (Inr \<lparr> changedSize = False, changedFormat = False \<rparr>,
      scenario_window\<lparr> swapchain := 20, swapImages := [21, 22, 23], swapViews := [121, 122, 123] \<rparr>)"
  apply (simp add: recreate_swapchain_def window_queue_families_def)
  apply (simp add: scenario_window_def create_swapchain_scenario)
  apply (simp add: get_swapchain_images_def create_swapchain_image_views_def scenario_platform_def scenario_window_def)
  done

lemma loop_body_pending:
  "recreateSwapchain app \<Longrightarrow>
     loop_body t app = (case recreate_branch t app of (r, app', evs) \<Rightarrow> (r, app', PollEvents # evs))"
  by (simp add: loop_body_def)

lemma recreate_branch_rebuilt:
  assumes "recreate_branch t app = (Ok, app', evs)"
  shows "\<exists>changes w. recreate_swapchain (platform t) (window app) = (Inr changes, w)
      \<and> rebuilt changes w app app'
      \<and> evs = [DeviceWaitIdle, RecreateSwapchain]
              @ (if changedFormat changes then [CreateRenderPass] else [])
              @ [CreateFramebuffers]
              @ (if changedSize changes then [CreatePipeline] else [])"
proof -
  from recreate_branch_Ok [OF assms] obtain changes w where
    *: "recreate_swapchain (platform t) (window app) = (Inr changes, w)
      \<and> window app' = w
      \<and> evs = [DeviceWaitIdle, RecreateSwapchain]
              @ (if changedFormat changes then [CreateRenderPass] else [])
              @ [CreateFramebuffers]
              @ (if changedSize changes then [CreatePipeline] else [])
      \<and> \<not> recreateSwapchain app'
      \<and> length (framebuffers app') = length (swapViews w)
      \<and> (\<forall>fb \<in> set (framebuffers app'). fb_extent fb = swapchainExtent w)
      \<and> (changedFormat changes \<longrightarrow> rp_format (renderPass app') = swapchainFormat w)
      \<and> (\<not> changedFormat changes \<longrightarrow> renderPass app' = renderPass app)
      \<and> (changedSize changes \<longrightarrow> pipe_extent (pipe app') = swapchainExtent w)
      \<and> (\<not> changedSize changes \<longrightarrow> pipe app' = pipe app)"
    by blast
  show ?thesis
    apply (rule exI [of _ changes], rule exI [of _ w])
    using * by (simp add: rebuilt_def list_all_iff)
qed

lemma recreate_branch4_rebuilt:
  assumes "recreate_branch4 t app = (Ok, app', evs)"
  shows "\<exists>changes w. recreate_swapchain (platform t) (window app) = (Inr changes, w)
      \<and> rebuilt4 changes w app app'
      \<and> evs = [DeviceWaitIdle, RecreateSwapchain]
              @ (if changedFormat changes then [CreateRenderPass] else [])
              @ (if changedSize changes
                 then [CreatePipeline, CreateAlphaPipeline, CreateDepthBuffer] else [])
              @ [CreateFramebuffers]"
proof -
  from recreate_branch4_Ok [OF assms] obtain changes w where
    *: "recreate_swapchain (platform t) (window app) = (Inr changes, w)
      \<and> window app' = w
      \<and> evs = [DeviceWaitIdle, RecreateSwapchain]
              @ (if changedFormat changes then [CreateRenderPass] else [])
              @ (if changedSize changes
                 then [CreatePipeline, CreateAlphaPipeline, CreateDepthBuffer] else [])
              @ [CreateFramebuffers]
      \<and> \<not> recreateSwapchain app'
      \<and> length (framebuffers app') = length (swapViews w)
      \<and> (\<forall>fb \<in> set (framebuffers app'). fb_extent fb = swapchainExtent w)
      \<and> (changedFormat changes \<longrightarrow> rp_format (renderPass app') = swapchainFormat w)
      \<and> (\<not> changedFormat changes \<longrightarrow> renderPass app' = renderPass app)
      \<and> (changedSize changes \<longrightarrow>
            pipe_extent (pipe app') = swapchainExtent w
            \<and> pipe_extent (alphaPipeline app') = swapchainExtent w
            \<and> db_extent (depthBuffer app') = swapchainExtent w)
      \<and> (\<not> changedSize changes \<longrightarrow>
            pipe app' = pipe app \<and> alphaPipeline app' = alphaPipeline app
            \<and> depthBuffer app' = depthBuffer app)"
    by blast
  show ?thesis
    apply (rule exI [of _ changes], rule exI [of _ w])
    using * by (simp add: rebuilt4_def rebuilt_def list_all_iff)
qed

lemma recreate_swapchain_resized:
  "recreate_swapchain (platform resized_tick) scenario_window =
     (Inr \<lparr> changedSize = True, changedFormat = False \<rparr>,
      scenario_window\<lparr> swapchain := 20, swapchainExtent := \<lparr> width = 1024, height = 768 \<rparr>,
                       swapImages := [21, 22, 23], swapViews := [121, 122, 123] \<rparr>)"
  by (simp add: recreate_swapchain_def window_queue_families_def resized_tick_def
        scenario_tick_def scenario_window_def create_swapchain_def scenario_platform_def
        scenario_caps_def bgra_unorm_def bgra_srgb_def get_surface_formats_def
        get_present_modes_def select_format_def select_present_mode_def
        swapchain_info_def resolve_extent_def std_clamp_def select_image_count_def
        get_swapchain_images_def create_swapchain_image_views_def)

lemma window_scenario_app: "window scenario_app = scenario_window"
  by (simp add: scenario_app_def)

lemma loop_body_resized:
  "fst (loop_body resized_tick (scenario_app\<lparr> recreateSwapchain := True \<rparr>)) = Ok
   \<and> snd (snd (loop_body resized_tick (scenario_app\<lparr> recreateSwapchain := True \<rparr>)))
       = [PollEvents, DeviceWaitIdle, RecreateSwapchain, CreateFramebuffers, CreatePipeline]"
  apply (simp add: loop_body_def recreate_branch_def and_then_def wait_idle_step_def
      recreate_step_def window_scenario_app recreate_swapchain_resized)
  apply (simp add: and_then_def render_pass_step_def framebuffers_step_def pipeline_step_def
      clear_flag_step_def create_swapchain_framebuffers_def create_triangle_pipeline_def
      resized_tick_def scenario_tick_def scenario_app_def scenario_window_def)
  done

lemma recreate_branch4_resized:
  "fst (recreate_branch4 resized_tick (scenario_app4\<lparr> recreateSwapchain := True \<rparr>)) = Ok
   \<and> snd (snd (recreate_branch4 resized_tick (scenario_app4\<lparr> recreateSwapchain := True \<rparr>)))
       = [DeviceWaitIdle, RecreateSwapchain, CreatePipeline, CreateAlphaPipeline,
          CreateDepthBuffer, CreateFramebuffers]
   \<and> db_extent (depthBuffer (fst (snd (recreate_branch4 resized_tick
                                            (scenario_app4\<lparr> recreateSwapchain := True \<rparr>)))))
       = \<lparr> width = 1024, height = 768 \<rparr>
   \<and> db_extent (depthBuffer (scenario_app4\<lparr> recreateSwapchain := True \<rparr>))
       = swapchainExtent (window (scenario_app4\<lparr> recreateSwapchain := True \<rparr>))"
  apply (simp add: recreate_branch4_def and_then_def wait_idle_step_def
      recreate_step_def window_scenario_app4 recreate_swapchain_resized)
  apply (simp add: and_then_def render_pass_step_def framebuffers_step4_def framebuffers_step_def
      resize_step4_def clear_flag_step_def create_swapchain_framebuffers_def
      create_pipeline_def create_alpha_pipeline_def create_depth_buffer_def
      resized_tick_def scenario_tick_def scenario_app4_def scenario_app_def App.defs App4.defs
      scenario_window_def)
  done

lemma recreate_branch4_scenario:
  "fst (recreate_branch4 (scenario_tick [21, 22]) (scenario_app4\<lparr> recreateSwapchain := True \<rparr>)) = Ok
   \<and> snd (snd (recreate_branch4 (scenario_tick [21, 22]) (scenario_app4\<lparr> recreateSwapchain := True \<rparr>)))
       = [DeviceWaitIdle, RecreateSwapchain, CreateFramebuffers]
   \<and> depthBuffer (fst (snd (recreate_branch4 (scenario_tick [21, 22]) (scenario_app4\<lparr> recreateSwapchain := True \<rparr>))))
       = depthBuffer scenario_app4"
  apply (simp add: recreate_branch4_def and_then_def wait_idle_step_def recreate_step_def
       platform_scenario_tick window_scenario_app4 recreate_swapchain_scenario_2)
  apply (simp add: and_then_def render_pass_step_def resize_step4_def framebuffers_step4_def
           framebuffers_step_def clear_flag_step_def
           scenario_app4_def scenario_app_def App.defs App4.defs scenario_window_def
           create_swapchain_framebuffers_def scenario_tick_def)
  done

text \<open>
  Claim C6, as stated: every recreation pass rebuilds the depth targets. In exercise 4 a
  pass in which the extent did not change completes without creating a depth buffer; the
  one from before the pass stays in use.
\<close>

theorem recreation_depth_counterexample:
  "fst (recreate_branch4 (scenario_tick [21, 22]) (scenario_app4\<lparr> recreateSwapchain := True \<rparr>)) = Ok
   \<and> CreateDepthBuffer \<notin> set (snd (snd (recreate_branch4 (scenario_tick [21, 22])
                                             (scenario_app4\<lparr> recreateSwapchain := True \<rparr>))))
   \<and> depthBuffer (fst (snd (recreate_branch4 (scenario_tick [21, 22])
                               (scenario_app4\<lparr> recreateSwapchain := True \<rparr>))))
       = depthBuffer scenario_app4"
  using recreate_branch4_scenario by simp

text \<open>
  Claim C6, amended. An iteration that finds recreation pending waits for the device to be
  idle, then calls \<open>recreate_swapchain\<close>, and makes none of the calls that draw a frame
  (no acquire, fence wait or reset, record, submit or present). When no step of the pass
  throws, it rebuilds the render pass exactly when the format changed, always rebuilds the
  framebuffers, one per swapchain view and sized to the new extent, rebuilds the pipeline
  exactly when the size changed, and clears the pending flag. Exercise 4 rebuilds its two
  pipelines and its depth buffer exactly when the size changed, before the framebuffers;
  a depth buffer that matched the old extent therefore matches the new one. The first two
  conjuncts are the loop body of exercise 3, the last two the recreation branch of
  exercise 4.
\<close>

theorem recreation_iteration:
  fixes app :: App and app4 :: App4
  assumes pending: "recreateSwapchain app"
  shows "(\<exists>evs'. snd (snd (loop_body t app)) = PollEvents # DeviceWaitIdle # RecreateSwapchain # evs'
            \<and> (\<forall>e \<in> set evs'. \<not> frame_event e))
       \<and> (fst (loop_body t app) = Ok \<longrightarrow>
            (\<exists>changes w. recreate_swapchain (platform t) (window app) = (Inr changes, w)
               \<and> rebuilt changes w app (fst (snd (loop_body t app)))
               \<and> snd (snd (loop_body t app)) =
                   [PollEvents, DeviceWaitIdle, RecreateSwapchain]
                   @ (if changedFormat changes then [CreateRenderPass] else [])
                   @ [CreateFramebuffers]
                   @ (if changedSize changes then [CreatePipeline] else [])))
       \<and> (\<exists>evs'. snd (snd (recreate_branch4 t4 app4)) = DeviceWaitIdle # RecreateSwapchain # evs'
            \<and> (\<forall>e \<in> set evs'. \<not> frame_event e))
       \<and> (fst (recreate_branch4 t4 app4) = Ok \<longrightarrow>
            (\<exists>changes w. recreate_swapchain (platform t4) (window app4) = (Inr changes, w)
               \<and> rebuilt4 changes w app4 (fst (snd (recreate_branch4 t4 app4)))
               \<and> (db_extent (depthBuffer app4) = swapchainExtent (window app4)
                    \<longrightarrow> db_extent (depthBuffer (fst (snd (recreate_branch4 t4 app4)))) = swapchainExtent w)
               \<and> snd (snd (recreate_branch4 t4 app4)) =
                   [DeviceWaitIdle, RecreateSwapchain]
                   @ (if changedFormat changes then [CreateRenderPass] else [])
                   @ (if changedSize changes
                      then [CreatePipeline, CreateAlphaPipeline, CreateDepthBuffer] else [])
                   @ [CreateFramebuffers]))"
proof -
  obtain r a evs where rb: "recreate_branch t app = (r, a, evs)"
    by (cases "recreate_branch t app") auto
  then have lb: "loop_body t app = (r, a, PollEvents # evs)"
    using pending by (simp add: loop_body_pending)
  from recreate_branch_always [OF rb] recreate_branch_no_frame [OF rb]
  have 1: "\<exists>evs'. snd (snd (loop_body t app)) = PollEvents # DeviceWaitIdle # RecreateSwapchain # evs'
            \<and> (\<forall>e \<in> set evs'. \<not> frame_event e)"
    unfolding lb by auto
  have 2: "fst (loop_body t app) = Ok \<longrightarrow>
            (\<exists>changes w. recreate_swapchain (platform t) (window app) = (Inr changes, w)
               \<and> rebuilt changes w app (fst (snd (loop_body t app)))
               \<and> snd (snd (loop_body t app)) =
                   [PollEvents, DeviceWaitIdle, RecreateSwapchain]
                   @ (if changedFormat changes then [CreateRenderPass] else [])
                   @ [CreateFramebuffers]
                   @ (if changedSize changes then [CreatePipeline] else []))"
  proof
    assume "fst (loop_body t app) = Ok"
    with lb rb have "recreate_branch t app = (Ok, a, evs)" by simp
    from recreate_branch_rebuilt [OF this] obtain changes w where
      "recreate_swapchain (platform t) (window app) = (Inr changes, w)"
      "rebuilt changes w app a"
      "evs = [DeviceWaitIdle, RecreateSwapchain]
              @ (if changedFormat changes then [CreateRenderPass] else [])
              @ [CreateFramebuffers]
              @ (if changedSize changes then [CreatePipeline] else [])"
      by blast
    then show "\<exists>changes w. recreate_swapchain (platform t) (window app) = (Inr changes, w)
               \<and> rebuilt changes w app (fst (snd (loop_body t app)))
               \<and> snd (snd (loop_body t app)) =
                   [PollEvents, DeviceWaitIdle, RecreateSwapchain]
                   @ (if changedFormat changes then [CreateRenderPass] else [])
                   @ [CreateFramebuffers]
                   @ (if changedSize changes then [CreatePipeline] else [])"
      unfolding lb by auto
  qed
  obtain r4 a4 evs4 where rb4: "recreate_branch4 t4 app4 = (r4, a4, evs4)"
    by (cases "recreate_branch4 t4 app4") auto
  from recreate_branch4_always [OF rb4] recreate_branch4_no_frame [OF rb4]
  have 3: "\<exists>evs'. snd (snd (recreate_branch4 t4 app4)) = DeviceWaitIdle # RecreateSwapchain # evs'
            \<and> (\<forall>e \<in> set evs'. \<not> frame_event e)"
    unfolding rb4 by auto
  have 4: "fst (recreate_branch4 t4 app4) = Ok \<longrightarrow>
            (\<exists>changes w. recreate_swapchain (platform t4) (window app4) = (Inr changes, w)
               \<and> rebuilt4 changes w app4 (fst (snd (recreate_branch4 t4 app4)))
               \<and> (db_extent (depthBuffer app4) = swapchainExtent (window app4)
                    \<longrightarrow> db_extent (depthBuffer (fst (snd (recreate_branch4 t4 app4)))) = swapchainExtent w)
               \<and> snd (snd (recreate_branch4 t4 app4)) =
                   [DeviceWaitIdle, RecreateSwapchain]
                   @ (if changedFormat changes then [CreateRenderPass] else [])
                   @ (if changedSize changes
                      then [CreatePipeline, CreateAlphaPipeline, CreateDepthBuffer] else [])
                   @ [CreateFramebuffers])"
  proof
    assume "fst (recreate_branch4 t4 app4) = Ok"
    with rb4 have ok: "recreate_branch4 t4 app4 = (Ok, a4, evs4)" by simp
    from recreate_branch4_rebuilt [OF ok] obtain changes w where
      rc: "recreate_swapchain (platform t4) (window app4) = (Inr changes, w)"
      and rb: "rebuilt4 changes w app4 a4"
      and ev: "evs4 = [DeviceWaitIdle, RecreateSwapchain]
              @ (if changedFormat changes then [CreateRenderPass] else [])
              @ (if changedSize changes
                 then [CreatePipeline, CreateAlphaPipeline, CreateDepthBuffer] else [])
              @ [CreateFramebuffers]"
      by blast
    have "db_extent (depthBuffer app4) = swapchainExtent (window app4)
            \<longrightarrow> db_extent (depthBuffer a4) = swapchainExtent w"
      using rb recreate_swapchain_changes(1) [OF rc]
      by (auto simp: rebuilt4_def split: if_splits)
    with rc rb ev show "\<exists>changes w. recreate_swapchain (platform t4) (window app4) = (Inr changes, w)
               \<and> rebuilt4 changes w app4 (fst (snd (recreate_branch4 t4 app4)))
               \<and> (db_extent (depthBuffer app4) = swapchainExtent (window app4)
                    \<longrightarrow> db_extent (depthBuffer (fst (snd (recreate_branch4 t4 app4)))) = swapchainExtent w)
               \<and> snd (snd (recreate_branch4 t4 app4)) =
                   [DeviceWaitIdle, RecreateSwapchain]
                   @ (if changedFormat changes then [CreateRenderPass] else [])
                   @ (if changedSize changes
                      then [CreatePipeline, CreateAlphaPipeline, CreateDepthBuffer] else [])
                   @ [CreateFramebuffers]"
      unfolding ok by auto
  qed
  from 1 2 3 4 show ?thesis by blast
qed

theorem recreation_iteration_witness:
  "recreateSwapchain (scenario_app\<lparr> recreateSwapchain := True \<rparr>)
   \<and> fst (loop_body resized_tick (scenario_app\<lparr> recreateSwapchain := True \<rparr>)) = Ok
   \<and> snd (snd (loop_body resized_tick (scenario_app\<lparr> recreateSwapchain := True \<rparr>)))
       = [PollEvents, DeviceWaitIdle, RecreateSwapchain, CreateFramebuffers, CreatePipeline]
   \<and> (\<exists>changes w.
         recreate_swapchain (platform resized_tick)
           (window (scenario_app\<lparr> recreateSwapchain := True \<rparr>)) = (Inr changes, w)
         \<and> rebuilt changes w (scenario_app\<lparr> recreateSwapchain := True \<rparr>)
             (fst (snd (loop_body resized_tick (scenario_app\<lparr> recreateSwapchain := True \<rparr>)))))
   \<and> fst (recreate_branch4 resized_tick (scenario_app4\<lparr> recreateSwapchain := True \<rparr>)) = Ok
   \<and> db_extent (depthBuffer (scenario_app4\<lparr> recreateSwapchain := True \<rparr>))
       = swapchainExtent (window (scenario_app4\<lparr> recreateSwapchain := True \<rparr>))
   \<and> db_extent (depthBuffer (fst (snd (recreate_branch4 resized_tick
                                            (scenario_app4\<lparr> recreateSwapchain := True \<rparr>)))))
       = \<lparr> width = 1024, height = 768 \<rparr>
   \<and> (\<exists>changes w.
         recreate_swapchain (platform resized_tick)
           (window (scenario_app4\<lparr> recreateSwapchain := True \<rparr>)) = (Inr changes, w)
         \<and> rebuilt4 changes w (scenario_app4\<lparr> recreateSwapchain := True \<rparr>)
             (fst (snd (recreate_branch4 resized_tick (scenario_app4\<lparr> recreateSwapchain := True \<rparr>)))))"
proof -
  have pending: "recreateSwapchain (scenario_app\<lparr> recreateSwapchain := True \<rparr>)"
    by simp
  from recreation_iteration
         [OF pending, of resized_tick resized_tick "scenario_app4\<lparr> recreateSwapchain := True \<rparr>"]
       loop_body_resized recreate_branch4_resized pending
  show ?thesis by blast
qed

section \<open>The frame path: acquire, wait, record, submit, present\<close>

lemma post_and_then:
  assumes f: "post f s Q R" and g: "\<And>s'. Q s' \<Longrightarrow> post g s' Q' R"
  shows "post (and_then f g) s Q' R"
proof (cases "f s")
  case (fields r s' evs)
  show ?thesis
  proof (cases r)
    case Ok
    with f fields have "Q s'" by (simp add: post_def)
    from g [OF this] fields Ok show ?thesis
      by (auto simp: post_def and_then_def split: prod.splits Flow.splits)
  next
    case (Raise e)
    with f fields show ?thesis by (simp add: post_def and_then_def)
  next
    case Blocked
    with f fields show ?thesis by (simp add: post_def and_then_def)
  qed
qed

lemma post_result:
  "post f s Q R \<Longrightarrow> f s = (r, s', evs) \<Longrightarrow> (if r = Ok then Q s' else R s')"
  by (cases r) (auto simp: post_def)

lemma slots_ok_update:
  assumes "slots_ok fs" and "i < length fs \<Longrightarrow> slot_ok f"
  shows "slots_ok (fs[i := f])"
proof (cases "i < length fs")
  case True
  have "set (fs[i := f]) \<subseteq> insert f (set fs)"
    by (rule set_update_subset_insert)
  with assms True show ?thesis
    unfolding slots_ok_def list_all_iff by blast
next
  case False
  then have "length fs \<le> i" by arith
  then have "fs[i := f] = fs" by (rule list_update_beyond)
  with assms(1) show ?thesis by simp
qed

lemma slots_ok_device_wait_idle:
  "slots_ok fs \<Longrightarrow> slots_ok (device_wait_idle fs)"
  by (auto simp: slots_ok_def list_all_iff device_wait_idle_def slot_ok_def)

lemma post_assert:
  "(b \<Longrightarrow> Q s) \<Longrightarrow> (\<not> b \<Longrightarrow> R s) \<Longrightarrow> post (assert_prog b msg) s Q R"
  by (simp add: post_def assert_prog_def)

lemma post_wait_for_fence:
  "slots_ok (cbfences s) \<Longrightarrow>
   post (wait_for_fence t i) s
     (\<lambda>s'. slots_ok (cbfences s') \<and> (i < length (cbfences s') \<longrightarrow> in_flight (cbfences s' ! i) = 0))
     (\<lambda>s'. slots_ok (cbfences s'))"
  by (auto simp: post_def wait_for_fence_def Let_def slot_ok_def intro!: slots_ok_update)

lemma post_reset_fence:
  "slots_ok (cbfences s) \<Longrightarrow> (i < length (cbfences s) \<longrightarrow> in_flight (cbfences s ! i) = 0) \<Longrightarrow>
   post (reset_fence t i) s
     (\<lambda>s'. slots_ok (cbfences s')
        \<and> (i < length (cbfences s') \<longrightarrow> in_flight (cbfences s' ! i) = 0 \<and> \<not> signaled (cbfences s' ! i)))
     (\<lambda>s'. slots_ok (cbfences s'))"
  by (auto simp: post_def reset_fence_def slot_ok_def intro!: slots_ok_update)

lemma post_record_commands:
  "Q s \<Longrightarrow> R s \<Longrightarrow> post (record_commands t i) s Q R"
  by (simp add: post_def record_commands_def)

lemma post_submit_commands:
  "slots_ok (cbfences s) \<Longrightarrow>
   (i < length (cbfences s) \<longrightarrow> in_flight (cbfences s ! i) = 0 \<and> \<not> signaled (cbfences s ! i)) \<Longrightarrow>
   post (submit_commands t i) s (\<lambda>s'. slots_ok (cbfences s')) (\<lambda>s'. slots_ok (cbfences s'))"
  by (auto simp: post_def submit_commands_def slot_ok_def intro!: slots_ok_update)

lemma post_present_image:
  "slots_ok (cbfences s) \<Longrightarrow>
   post (present_image t i) s (\<lambda>s'. slots_ok (cbfences s')) (\<lambda>s'. slots_ok (cbfences s'))"
  by (simp add: post_def present_image_def)

lemma post_render_frame:
  assumes "slots_ok (cbfences app)"
  shows "post (render_frame t i) app (\<lambda>s'. slots_ok (cbfences s')) (\<lambda>s'. slots_ok (cbfences s'))"
proof -
  let ?I = "\<lambda>s'. slots_ok (cbfences s')"
  let ?I1 = "\<lambda>s'. slots_ok (cbfences s') \<and> (i < length (cbfences s') \<longrightarrow> in_flight (cbfences s' ! i) = 0)"
  let ?I2 = "\<lambda>s'. slots_ok (cbfences s')
        \<and> (i < length (cbfences s') \<longrightarrow> in_flight (cbfences s' ! i) = 0 \<and> \<not> signaled (cbfences s' ! i))"
  have "post (and_then (assert_prog (i < length (cbfences app)) ''imageIndex < cbfences.size()'')
    (and_then (wait_for_fence t i)
    (and_then (reset_fence t i)
    (and_then (assert_prog (i < length (cbuffers app)) ''imageIndex < cbuffers.size()'')
    (and_then (assert_prog (i < length (framebuffers app)) ''imageIndex < framebuffers.size()'')
    (and_then (record_commands t i)
    (and_then (submit_commands t i)
              (present_image t i)))))))) app ?I ?I"
    apply (rule post_and_then [where Q = ?I])
     apply (rule post_assert, rule assms, rule assms)
    apply (rule post_and_then [where Q = ?I1])
     apply (rule post_wait_for_fence, simp)
    apply (rule post_and_then [where Q = ?I2])
     apply (rule post_reset_fence, simp, simp)
    apply (rule post_and_then [where Q = ?I2])
     apply (rule post_assert, simp, simp)
    apply (rule post_and_then [where Q = ?I2])
     apply (rule post_assert, simp, simp)
    apply (rule post_and_then [where Q = ?I2])
     apply (rule post_record_commands, simp, simp)
    apply (rule post_and_then [where Q = ?I])
     apply (rule post_submit_commands, simp, simp)
    apply (rule post_present_image, simp)
    done
  then show ?thesis
    by (simp add: post_def render_frame_def)
qed

lemma frame_branch_slots_ok:
  assumes "slots_ok (cbfences app)" and "frame_branch t app = (r, app', evs)"
  shows "slots_ok (cbfences app')"
proof (cases "acquireResult t = VK_SUCCESS")
  case True
  obtain r1 a1 e1 where rf: "render_frame t (unat (acquireIndex t)) app = (r1, a1, e1)"
    by (cases "render_frame t (unat (acquireIndex t)) app")
  from post_result [OF post_render_frame [OF assms(1)] rf] have "slots_ok (cbfences a1)"
    by (simp split: if_splits)
  with True rf assms(2) show ?thesis
    by (simp add: frame_branch_def)
next
  case False
  with assms show ?thesis
    by (auto simp: frame_branch_def split: if_splits)
qed

lemma recreate_step_preserves:
  assumes rest: "\<And>changes s r s' evs. P s \<Longrightarrow> rest changes s = (r, s', evs) \<Longrightarrow> P s'"
    and window: "\<And>s w. P s \<Longrightarrow> P (s\<lparr> window := w \<rparr>)"
    and "P app" and run: "recreate_step t rest app = (r, app', evs)"
  shows "P app'"
proof (cases "recreate_swapchain (platform t) (window app)")
  case (Pair res w)
  show ?thesis
  proof (cases res)
    case (Inl e)
    with Pair run window [OF \<open>P app\<close>] show ?thesis by (auto simp: recreate_step_def)
  next
    case (Inr changes)
    obtain r2 s2 e2 where c: "rest changes (app\<lparr> window := w \<rparr>) = (r2, s2, e2)"
      by (cases "rest changes (app\<lparr> window := w \<rparr>)")
    from rest [OF window [OF \<open>P app\<close>] c] Pair Inr run c show ?thesis
      by (auto simp: recreate_step_def)
  qed
qed

lemma render_pass_step_fences:
  "render_pass_step t changes s = (r, s', evs) \<Longrightarrow> cbfences s' = cbfences s \<and> cbuffers s' = cbuffers s"
  by (auto simp: render_pass_step_def split: if_splits sum.splits)

lemma framebuffers_step_fences:
  "framebuffers_step t extra s = (r, s', evs) \<Longrightarrow> cbfences s' = cbfences s \<and> cbuffers s' = cbuffers s"
  by (auto simp: framebuffers_step_def split: prod.splits option.splits)

lemma pipeline_step_fences:
  "pipeline_step t changes s = (r, s', evs) \<Longrightarrow> cbfences s' = cbfences s \<and> cbuffers s' = cbuffers s"
  by (auto simp: pipeline_step_def split: if_splits sum.splits)

lemma clear_flag_step_fences:
  "clear_flag_step s = (r, s', evs) \<Longrightarrow> cbfences s' = cbfences s \<and> cbuffers s' = cbuffers s"
  by (auto simp: clear_flag_step_def)

lemma recreate_branch_fences:
  assumes "recreate_branch t app = (r, app', evs)"
  shows "cbfences app' = device_wait_idle (cbfences app) \<and> cbuffers app' = cbuffers app"
proof -
  let ?P = "\<lambda>s. cbfences s = device_wait_idle (cbfences app) \<and> cbuffers s = cbuffers app"
  let ?rest = "\<lambda>changes. and_then (render_pass_step t changes)
         (and_then (framebuffers_step t [])
         (and_then (pipeline_step t changes) clear_flag_step))"
  obtain r1 a1 e1 where
    rs: "recreate_step t ?rest (app\<lparr> cbfences := device_wait_idle (cbfences app) \<rparr>) = (r1, a1, e1)"
    by (cases "recreate_step t ?rest (app\<lparr> cbfences := device_wait_idle (cbfences app) \<rparr>)")
  have rest: "\<And>changes s r s' evs. ?P s \<Longrightarrow> ?rest changes s = (r, s', evs) \<Longrightarrow> ?P s'"
    apply (erule and_then_preserves [rotated 2, where P = ?P])
      apply assumption
     apply (drule render_pass_step_fences, simp)
    apply (erule and_then_preserves [rotated 2, where P = ?P])
      apply assumption
     apply (drule framebuffers_step_fences, simp)
    apply (erule and_then_preserves [rotated 2, where P = ?P])
      apply assumption
     apply (drule pipeline_step_fences, simp)
    apply (drule clear_flag_step_fences, simp)
    done
  have "?P a1"
    by (rule recreate_step_preserves [where P = ?P, OF rest _ _ rs]) simp_all
  moreover from assms rs have "app' = a1"
    by (simp add: recreate_branch_def and_then_def wait_idle_step_def)
  ultimately show ?thesis by simp
qed

lemma loop_body_slots_ok:
  assumes "slots_ok (cbfences app)" and "loop_body t app = (r, app', evs)"
  shows "slots_ok (cbfences app')"
proof (cases "recreateSwapchain app")
  case True
  obtain r1 a1 e1 where rb: "recreate_branch t app = (r1, a1, e1)"
    by (cases "recreate_branch t app")
  with True assms(2) have "app' = a1" by (simp add: loop_body_def)
  with recreate_branch_fences [OF rb] assms(1) show ?thesis
    by (simp add: slots_ok_device_wait_idle)
next
  case False
  obtain r1 a1 e1 where fb: "frame_branch t app = (r1, a1, e1)"
    by (cases "frame_branch t app")
  with False assms(2) have "app' = a1" by (simp add: loop_body_def)
  with frame_branch_slots_ok [OF assms(1) fb] show ?thesis by simp
qed

lemma run_loop_slots_ok:
  "slots_ok (cbfences app) \<Longrightarrow> run_loop ts app = (st, app', evs) \<Longrightarrow> slots_ok (cbfences app')"
proof (induction ts arbitrary: app st app' evs)
  case Nil
  then show ?case by simp
next
  case (Cons t ts)
  show ?case
  proof (cases "windowShouldClose t")
    case True
    with Cons.prems show ?thesis by simp
  next
    case False
    obtain r a1 e1 where lb: "loop_body t app = (r, a1, e1)"
      by (cases "loop_body t app")
    note ok1 = loop_body_slots_ok [OF Cons.prems(1) lb]
    show ?thesis
    proof (cases r)
      case Ok
      obtain st2 a2 e2 where rl: "run_loop ts a1 = (st2, a2, e2)"
        by (cases "run_loop ts a1")
      from Cons.IH [OF ok1 rl] Cons.prems(2) False lb Ok rl show ?thesis by simp
    next
      case (Raise e)
      with Cons.prems(2) False lb ok1 show ?thesis by simp
    next
      case Blocked
      with Cons.prems(2) False lb ok1 show ?thesis by simp
    qed
  qed
qed

lemmas frame_defs =
  render_frame_def and_then_def assert_prog_def wait_for_fence_def reset_fence_def
  record_commands_def submit_commands_def present_image_def Let_def

lemma loop_body_frame:
  "\<not> recreateSwapchain app \<Longrightarrow>
     loop_body t app = (case frame_branch t app of (r, app', evs) \<Rightarrow> (r, app', PollEvents # evs))"
  by (simp add: loop_body_def)

lemma frame_branch_not_acquired:
  assumes "acquireResult t \<noteq> VK_SUCCESS"
  shows "frame_branch t app =
     (if acquireResult t = VK_SUBOPTIMAL_KHR \<or> acquireResult t = VK_ERROR_OUT_OF_DATE_KHR
      then (Ok, app\<lparr> recreateSwapchain := True \<rparr>, [AcquireNextImage])
      else (Raise (Error ''vkAcquireNextImageKHR'' (acquireResult t)), app, [AcquireNextImage]))"
  using assms by (auto simp: frame_branch_def)

lemma frame_branch_acquired:
  assumes "acquireResult t = VK_SUCCESS"
  shows "frame_branch t app =
     (case render_frame t (unat (acquireIndex t)) app of
        (r, app', evs) \<Rightarrow> (r, app', AcquireNextImage # evs))"
  using assms by (simp add: frame_branch_def)

lemma render_frame_no_slot:
  "\<not> i < length (cbfences app) \<Longrightarrow>
     render_frame t i app = (Raise (AssertionFailed ''imageIndex < cbfences.size()''), app, [])"
  by (simp add: frame_defs)

lemma render_frame_blocked:
  "i < length (cbfences app) \<Longrightarrow> \<not> will_signal (cbfences app ! i) \<Longrightarrow>
     render_frame t i app = (Blocked, app, [WaitForFences i])"
  by (simp add: frame_defs will_signal_def)

lemma render_frame_wait_failed:
  "i < length (cbfences app) \<Longrightarrow> will_signal (cbfences app ! i) \<Longrightarrow>
   waitFenceResult t \<noteq> VK_SUCCESS \<Longrightarrow>
     render_frame t i app = (Raise (Error ''vkWaitForFences'' (waitFenceResult t)), app, [WaitForFences i])"
  by (auto simp add: frame_defs will_signal_def)

lemma render_frame_reset_failed:
  "i < length (cbfences app) \<Longrightarrow> will_signal (cbfences app ! i) \<Longrightarrow>
   waitFenceResult t = VK_SUCCESS \<Longrightarrow> resetFenceResult t \<noteq> VK_SUCCESS \<Longrightarrow>
     snd (snd (render_frame t i app)) = [WaitForFences i, ResetFences i]"
  by (auto simp add: frame_defs will_signal_def)

lemma render_frame_presented:
  assumes "i < length (cbfences app)" "i < length (cbuffers app)" "i < length (framebuffers app)"
    and "will_signal (cbfences app ! i)"
    and "waitFenceResult t = VK_SUCCESS" "resetFenceResult t = VK_SUCCESS"
    and "beginCommandBufferResult t = VK_SUCCESS" "endCommandBufferResult t = VK_SUCCESS"
    and "queueSubmitResult t = VK_SUCCESS"
  shows "render_frame t i app =
     (case present_image t i
             (app\<lparr> cbfences := (cbfences app)[i := (cbfences app ! i)\<lparr> signaled := False, in_flight := 1 \<rparr>] \<rparr>) of
        (r, app', evs) \<Rightarrow>
          (r, app', [WaitForFences i, ResetFences i, RecordCommands i, SubmitCommands i] @ evs))"
  using assms by (auto simp add: frame_defs will_signal_def split: prod.splits)


lemma render_frame_events:
  "\<exists>rest. [WaitForFences i, ResetFences i, RecordCommands i, SubmitCommands i, QueuePresent i]
            = snd (snd (render_frame t i app)) @ rest"
  by (simp add: frame_defs)

lemma render_frame_recorded:
  assumes "RecordCommands j \<in> set (snd (snd (render_frame t i app)))
           \<or> SubmitCommands j \<in> set (snd (snd (render_frame t i app)))"
  shows "j = i \<and> i < length (cbfences app) \<and> will_signal (cbfences app ! i)
         \<and> waitFenceResult t = VK_SUCCESS \<and> resetFenceResult t = VK_SUCCESS"
proof -
  from render_frame_events [of i t app] obtain rest where
    "[WaitForFences i, ResetFences i, RecordCommands i, SubmitCommands i, QueuePresent i]
       = snd (snd (render_frame t i app)) @ rest" ..
  then have "set (snd (snd (render_frame t i app)))
       \<subseteq> set [WaitForFences i, ResetFences i, RecordCommands i, SubmitCommands i, QueuePresent i]"
    by (metis set_append Un_upper1)
  with assms have j: "j = i" by auto
  have 1: "i < length (cbfences app)"
    using assms render_frame_no_slot [of i app t] by (cases "i < length (cbfences app)") auto
  have 2: "will_signal (cbfences app ! i)"
    using assms 1 render_frame_blocked [of i app t] by (cases "will_signal (cbfences app ! i)") auto
  have 3: "waitFenceResult t = VK_SUCCESS"
    using assms 1 2 render_frame_wait_failed [of i app t] by (cases "waitFenceResult t = VK_SUCCESS") auto
  have 4: "resetFenceResult t = VK_SUCCESS"
    using assms 1 2 3 render_frame_reset_failed [of i app t] by (cases "resetFenceResult t = VK_SUCCESS") auto
  from j 1 2 3 4 show ?thesis by simp
qed

lemma frame_slots_loop_ok:
  "frame_slots_loop t i n cbs fs = Inr (cbs', fs') \<Longrightarrow> slots_ok fs \<Longrightarrow>
     slots_ok fs' \<and> length fs' = length fs + n \<and> length cbs' = length cbs + n"
proof (induction n arbitrary: i cbs fs)
  case 0
  then show ?case by simp
next
  case (Suc n)
  obtain r1 cb where a: "allocCommandBufferResult t i = (r1, cb)"
    by (cases "allocCommandBufferResult t i")
  obtain r2 fh where f: "createFenceResult t i = (r2, fh)"
    by (cases "createFenceResult t i")
  from Suc.prems(1) a f have ok: "r1 = VK_SUCCESS" "r2 = VK_SUCCESS"
    by (auto split: if_splits)
  let ?fs = "fs @ [\<lparr> fence_handle = fh, signaled = True, in_flight = 0 \<rparr>]"
  from Suc.prems(1) a f ok have rec: "frame_slots_loop t (Suc i) n (cbs @ [cb]) ?fs = Inr (cbs', fs')"
    by simp
  from Suc.prems(2) have "slots_ok ?fs"
    by (simp add: slots_ok_def slot_ok_def)
  from Suc.IH [OF rec this] show ?case by simp
qed

lemma main_startup_ok:
  assumes "main_startup t win = Inr app"
  shows "slots_ok (cbfences app)"
    and "length (cbfences app) = length (swapViews win)"
    and "length (cbuffers app) = length (swapViews win)"
    and "length (framebuffers app) = length (swapViews win)"
    and "window app = win" and "\<not> recreateSwapchain app"
proof -
  from assms obtain rp pl fbs cbs fences where
      fb: "create_swapchain_framebuffers t win (rp_handle rp) [] [] = (None, fbs)"
    and sl: "frame_slots_loop t 0 (length fbs) [] [] = Inr (cbs, fences)"
    and app: "app = \<lparr> window = win, renderPass = rp, pipe = pl, framebuffers = fbs,
                cbuffers = cbs, cbfences = fences, recreateSwapchain = False \<rparr>"
    by (auto simp: main_startup_def split: sum.splits prod.splits option.splits)
  have "slots_ok []" by (simp add: slots_ok_def)
  from frame_slots_loop_ok [OF sl this] create_swapchain_framebuffers_ok(1) [OF fb] app
  show "slots_ok (cbfences app)"
    and "length (cbfences app) = length (swapViews win)"
    and "length (cbuffers app) = length (swapViews win)"
    and "length (framebuffers app) = length (swapViews win)"
    and "window app = win" and "\<not> recreateSwapchain app"
    by simp_all
qed

lemma frame_branch_pool:
  "frame_branch t app = (r, app', evs) \<Longrightarrow>
     length (cbfences app') = length (cbfences app) \<and> cbuffers app' = cbuffers app"
  by (auto simp: frame_branch_def frame_defs split: if_splits prod.splits Flow.splits)

lemma run_loop_events:
  assumes "\<not> windowShouldClose t"
  shows "\<exists>rest. snd (snd (run_loop (t # ts) app)) = snd (snd (loop_body t app)) @ rest"
proof (cases "loop_body t app")
  case (fields r a1 e1)
  show ?thesis
  proof (cases r)
    case Ok
    with fields assms show ?thesis by (auto split: prod.splits)
  next
    case (Raise e)
    with fields assms show ?thesis by simp
  next
    case Blocked
    with fields assms show ?thesis by simp
  qed
qed

lemma loop_body_pending_events:
  assumes "recreateSwapchain app"
  shows "\<exists>evs'. snd (snd (loop_body t app)) = PollEvents # DeviceWaitIdle # RecreateSwapchain # evs'
           \<and> (\<forall>e \<in> set evs'. \<not> frame_event e)"
proof -
  obtain r a evs where rb: "recreate_branch t app = (r, a, evs)"
    by (cases "recreate_branch t app") auto
  then have lb: "loop_body t app = (r, a, PollEvents # evs)"
    using assms by (simp add: loop_body_pending)
  from recreate_branch_always [OF rb] recreate_branch_no_frame [OF rb]
  show ?thesis unfolding lb by auto
qed

lemma loop_body_pending_fences:
  assumes "recreateSwapchain app"
  shows "cbfences (fst (snd (loop_body t app))) = device_wait_idle (cbfences app)"
proof -
  obtain r a evs where rb: "recreate_branch t app = (r, a, evs)"
    by (cases "recreate_branch t app") auto
  then have lb: "loop_body t app = (r, a, PollEvents # evs)"
    using assms by (simp add: loop_body_pending)
  from recreate_branch_fences [OF rb] show ?thesis unfolding lb by simp
qed

lemma main_startup_scenario:
  "main_startup (scenario_tick [21, 22]) scenario_window = Inr scenario_app"
  by (simp add: main_startup_def scenario_defs create_render_pass_def create_triangle_pipeline_def
        create_swapchain_framebuffers_def numeral_2_eq_2)

lemma make_vulkan_window_scenario:
  "make_vulkan_window (scenario_platform [21, 22]) []
     \<lparr> swapchain = 0, swapchainFormat = VK_FORMAT_UNDEFINED,
       swapchainExtent = \<lparr> width = 0, height = 0 \<rparr>, swapImages = [], swapViews = [],
       graphicsFamilyIndex = 0, presentFamilyIndex = 0 \<rparr>
     = Inr scenario_window"
  apply (simp add: make_vulkan_window_def create_swapchain_scenario)
  apply (simp add: scenario_defs get_swapchain_images_def create_swapchain_image_views_def)
  done

lemma loop_body_scenario_frame:
  "loop_body (scenario_tick [21, 22]) scenario_app
     = (Ok,
        scenario_app\<lparr> cbfences := [\<lparr> fence_handle = 400, signaled = False, in_flight = 1 \<rparr>,
                                   \<lparr> fence_handle = 401, signaled = True, in_flight = 0 \<rparr>] \<rparr>,
        [PollEvents, AcquireNextImage, WaitForFences 0, ResetFences 0,
         RecordCommands 0, SubmitCommands 0, QueuePresent 0])"
  by (simp add: loop_body_def frame_branch_def frame_defs scenario_tick_def scenario_app_def)

lemma loop_body_scenario_stale:
  "loop_body ((scenario_tick [21, 22])\<lparr> acquireResult := VK_ERROR_OUT_OF_DATE_KHR \<rparr>) scenario_app
     = (Ok, scenario_app\<lparr> recreateSwapchain := True \<rparr>, [PollEvents, AcquireNextImage])"
  by (simp add: loop_body_def frame_branch_def scenario_tick_def scenario_app_def)

lemma loop_body_scenario_recreate3:
  "loop_body (scenario_tick [21, 22, 23]) (scenario_app\<lparr> recreateSwapchain := True \<rparr>)
     = (Ok,
        grown_app,
        [PollEvents, DeviceWaitIdle, RecreateSwapchain, CreateFramebuffers])"
  apply (simp add: loop_body_def recreate_branch_def and_then_def wait_idle_step_def
      recreate_step_def window_scenario_app platform_scenario_tick recreate_swapchain_scenario_3)
  apply (simp add: and_then_def render_pass_step_def framebuffers_step_def pipeline_step_def
      clear_flag_step_def create_swapchain_framebuffers_def device_wait_idle_def
      scenario_tick_def scenario_app_def scenario_window_def grown_app_def)
  done

lemma loop_body_scenario_acquire2:
  "loop_body ((scenario_tick [21, 22, 23])\<lparr> acquireIndex := 2 \<rparr>)
      grown_app
     = (Raise (AssertionFailed ''imageIndex < cbfences.size()''),
        grown_app,
        [PollEvents, AcquireNextImage])"
  by (simp add: loop_body_def frame_branch_def frame_defs scenario_tick_def scenario_app_def
        grown_app_def)

text \<open>
  Claim C4. With the window open and no recreation pending, an acquire that does not
  succeed has one of two outcomes. On \<open>VK_SUBOPTIMAL_KHR\<close> or \<open>VK_ERROR_OUT_OF_DATE_KHR\<close> the
  iteration only sets the pending flag: its calls are the event poll and the acquire, with
  no fence wait, record, submit or present, and it does not throw. The next iteration then
  starts with the device wait and \<open>recreate_swapchain\<close> and makes no acquire at all. On any
  other status the loop ends with the error of \<open>vkAcquireNextImageKHR\<close>.
\<close>

theorem acquire_stale_or_fatal:
  assumes running: "\<not> windowShouldClose t"
    and idle: "\<not> recreateSwapchain app"
    and failed: "acquireResult t \<noteq> VK_SUCCESS"
  shows "if acquireResult t = VK_SUBOPTIMAL_KHR \<or> acquireResult t = VK_ERROR_OUT_OF_DATE_KHR
         then loop_body t app = (Ok, app\<lparr> recreateSwapchain := True \<rparr>, [PollEvents, AcquireNextImage])
              \<and> (\<exists>evs'. snd (snd (loop_body t' (app\<lparr> recreateSwapchain := True \<rparr>)))
                           = PollEvents # DeviceWaitIdle # RecreateSwapchain # evs'
                        \<and> (\<forall>e \<in> set evs'. \<not> frame_event e))
              \<and> (\<not> windowShouldClose t' \<longrightarrow>
                   (\<exists>evs'. snd (snd (run_loop (t # t' # ts) app))
                             = [PollEvents, AcquireNextImage, PollEvents, DeviceWaitIdle, RecreateSwapchain] @ evs'))
         else run_loop (t # ts) app
                = (Fatal (Error ''vkAcquireNextImageKHR'' (acquireResult t)), app,
                   [PollEvents, AcquireNextImage])"
proof (cases "acquireResult t = VK_SUBOPTIMAL_KHR \<or> acquireResult t = VK_ERROR_OUT_OF_DATE_KHR")
  case True
  let ?app = "app\<lparr> recreateSwapchain := True \<rparr>"
  from True idle have lb: "loop_body t app = (Ok, ?app, [PollEvents, AcquireNextImage])"
    by (auto simp: loop_body_frame frame_branch_def)
  have pend: "recreateSwapchain ?app" by simp
  note next_evs = loop_body_pending_events [OF pend, of t']
  have "\<not> windowShouldClose t' \<longrightarrow>
          (\<exists>evs'. snd (snd (run_loop (t # t' # ts) app))
                    = [PollEvents, AcquireNextImage, PollEvents, DeviceWaitIdle, RecreateSwapchain] @ evs')"
  proof
    assume open': "\<not> windowShouldClose t'"
    from run_loop_events [OF open', of ts ?app] next_evs
    obtain evs' rest where "snd (snd (run_loop (t' # ts) ?app))
        = (PollEvents # DeviceWaitIdle # RecreateSwapchain # evs') @ rest"
      by auto
    with running lb show "\<exists>evs'. snd (snd (run_loop (t # t' # ts) app))
                    = [PollEvents, AcquireNextImage, PollEvents, DeviceWaitIdle, RecreateSwapchain] @ evs'"
      by (auto split: prod.splits)
  qed
  with True lb next_evs show ?thesis by simp
next
  case False
  with idle failed have "loop_body t app
      = (Raise (Error ''vkAcquireNextImageKHR'' (acquireResult t)), app, [PollEvents, AcquireNextImage])"
    by (simp add: loop_body_frame frame_branch_not_acquired)
  with False running show ?thesis by simp
qed

theorem acquire_stale_or_fatal_witness:
  "\<not> windowShouldClose ((scenario_tick [21, 22])\<lparr> acquireResult := VK_ERROR_OUT_OF_DATE_KHR \<rparr>)
   \<and> \<not> recreateSwapchain scenario_app
   \<and> acquireResult ((scenario_tick [21, 22])\<lparr> acquireResult := VK_ERROR_OUT_OF_DATE_KHR \<rparr>)
        = VK_ERROR_OUT_OF_DATE_KHR
   \<and> loop_body ((scenario_tick [21, 22])\<lparr> acquireResult := VK_ERROR_OUT_OF_DATE_KHR \<rparr>) scenario_app
        = (Ok, scenario_app\<lparr> recreateSwapchain := True \<rparr>, [PollEvents, AcquireNextImage])
   \<and> \<not> windowShouldClose (scenario_tick [21, 22])
   \<and> (\<exists>evs'. snd (snd (run_loop [(scenario_tick [21, 22])\<lparr> acquireResult := VK_ERROR_OUT_OF_DATE_KHR \<rparr>,
                                    scenario_tick [21, 22]] scenario_app))
               = [PollEvents, AcquireNextImage, PollEvents, DeviceWaitIdle, RecreateSwapchain] @ evs')
   \<and> \<not> windowShouldClose ((scenario_tick [21, 22])\<lparr> acquireResult := VK_ERROR_DEVICE_LOST \<rparr>)
   \<and> acquireResult ((scenario_tick [21, 22])\<lparr> acquireResult := VK_ERROR_DEVICE_LOST \<rparr>)
        = VK_ERROR_DEVICE_LOST
   \<and> run_loop [(scenario_tick [21, 22])\<lparr> acquireResult := VK_ERROR_DEVICE_LOST \<rparr>] scenario_app
        = (Fatal (Error ''vkAcquireNextImageKHR'' VK_ERROR_DEVICE_LOST), scenario_app,
           [PollEvents, AcquireNextImage])"
proof -
  let ?stale = "(scenario_tick [21, 22])\<lparr> acquireResult := VK_ERROR_OUT_OF_DATE_KHR \<rparr>"
  let ?lost = "(scenario_tick [21, 22])\<lparr> acquireResult := VK_ERROR_DEVICE_LOST \<rparr>"
  have running: "\<not> windowShouldClose ?stale" "\<not> windowShouldClose ?lost"
    "\<not> windowShouldClose (scenario_tick [21, 22])"
    by (simp_all add: scenario_tick_def)
  have idle: "\<not> recreateSwapchain scenario_app"
    by (simp add: scenario_app_def)
  have res: "acquireResult ?stale = VK_ERROR_OUT_OF_DATE_KHR" "acquireResult ?lost = VK_ERROR_DEVICE_LOST"
    by simp_all
  have failed: "acquireResult ?stale \<noteq> VK_SUCCESS" "acquireResult ?lost \<noteq> VK_SUCCESS"
    by simp_all
  from acquire_stale_or_fatal [OF running(1) idle failed(1), of "scenario_tick [21, 22]" "[]"]
       res(1) running(3)
  have 1: "loop_body ?stale scenario_app
             = (Ok, scenario_app\<lparr> recreateSwapchain := True \<rparr>, [PollEvents, AcquireNextImage])"
    and 2: "\<exists>evs'. snd (snd (run_loop [?stale, scenario_tick [21, 22]] scenario_app))
               = [PollEvents, AcquireNextImage, PollEvents, DeviceWaitIdle, RecreateSwapchain] @ evs'"
    by (simp_all del: run_loop.simps)
  from acquire_stale_or_fatal [OF running(2) idle failed(2), of "scenario_tick [21, 22]" "[]"] res(2)
  have 3: "run_loop [?lost] scenario_app
        = (Fatal (Error ''vkAcquireNextImageKHR'' VK_ERROR_DEVICE_LOST), scenario_app,
           [PollEvents, AcquireNextImage])"
    by (simp del: run_loop.simps)
  from running idle res 1 2 3 show ?thesis by blast
qed

text \<open>
  Claim C5. After a frame has been acquired, recorded and submitted, a present that does
  not succeed has one of two outcomes. On \<open>VK_SUBOPTIMAL_KHR\<close> or \<open>VK_ERROR_OUT_OF_DATE_KHR\<close>
  the iteration completes and only sets the pending flag; the submission stays in flight
  on the slot's fence, which will therefore signal, and is signalled once the next
  iteration has waited for the device at the start of its recreation pass. On any other
  status the loop ends with the error of \<open>vkQueuePresentKHR\<close>.
\<close>

theorem present_stale_or_fatal:
  assumes running: "\<not> windowShouldClose t"
    and idle: "\<not> recreateSwapchain app"
    and acquired: "acquireResult t = VK_SUCCESS" "unat (acquireIndex t) = i"
    and slot: "i < length (cbfences app)" "i < length (cbuffers app)" "i < length (framebuffers app)"
    and fence: "will_signal (cbfences app ! i)"
    and waited: "waitFenceResult t = VK_SUCCESS" "resetFenceResult t = VK_SUCCESS"
    and recorded: "beginCommandBufferResult t = VK_SUCCESS" "endCommandBufferResult t = VK_SUCCESS"
    and submitted: "queueSubmitResult t = VK_SUCCESS"
    and failed: "presentResult t \<noteq> VK_SUCCESS"
  shows "if presentResult t = VK_SUBOPTIMAL_KHR \<or> presentResult t = VK_ERROR_OUT_OF_DATE_KHR
         then loop_body t app
                = (Ok,
                   app\<lparr> cbfences := (cbfences app)[i := (cbfences app ! i)\<lparr> signaled := False, in_flight := 1 \<rparr>],
                        recreateSwapchain := True \<rparr>,
                   [PollEvents, AcquireNextImage, WaitForFences i, ResetFences i,
                    RecordCommands i, SubmitCommands i, QueuePresent i])
              \<and> will_signal (cbfences (fst (snd (loop_body t app))) ! i)
              \<and> signaled (cbfences (fst (snd (loop_body t' (fst (snd (loop_body t app)))))) ! i)
              \<and> (\<exists>evs'. snd (snd (loop_body t' (fst (snd (loop_body t app)))))
                           = PollEvents # DeviceWaitIdle # RecreateSwapchain # evs')
         else run_loop (t # ts) app
                = (Fatal (Error ''vkQueuePresentKHR'' (presentResult t)),
                   app\<lparr> cbfences := (cbfences app)[i := (cbfences app ! i)\<lparr> signaled := False, in_flight := 1 \<rparr>] \<rparr>,
                   [PollEvents, AcquireNextImage, WaitForFences i, ResetFences i,
                    RecordCommands i, SubmitCommands i, QueuePresent i])"
proof -
  let ?a1 = "app\<lparr> cbfences := (cbfences app)[i := (cbfences app ! i)\<lparr> signaled := False, in_flight := 1 \<rparr>] \<rparr>"
  let ?evs = "[PollEvents, AcquireNextImage, WaitForFences i, ResetFences i,
                    RecordCommands i, SubmitCommands i, QueuePresent i]"
  have lb: "loop_body t app =
      (case present_image t i ?a1 of (r, app', evs) \<Rightarrow>
         (r, app', [PollEvents, AcquireNextImage, WaitForFences i, ResetFences i,
                    RecordCommands i, SubmitCommands i] @ evs))"
    using idle acquired
    by (simp add: loop_body_frame frame_branch_acquired
          render_frame_presented [OF slot fence waited recorded submitted]
          split: prod.splits)
  show ?thesis
  proof (cases "presentResult t = VK_SUBOPTIMAL_KHR \<or> presentResult t = VK_ERROR_OUT_OF_DATE_KHR")
    case True
    let ?a2 = "?a1\<lparr> recreateSwapchain := True \<rparr>"
    from True lb have res: "loop_body t app = (Ok, ?a2, ?evs)"
      by (auto simp: present_image_def)
    have pend: "recreateSwapchain ?a2" by simp
    have f: "cbfences ?a2 ! i = (cbfences app ! i)\<lparr> signaled := False, in_flight := 1 \<rparr>"
      using slot(1) by simp
    then have ws: "will_signal (cbfences ?a2 ! i)" by (simp add: will_signal_def)
    have "signaled (device_wait_idle (cbfences ?a2) ! i)"
      using slot(1) f by (simp add: device_wait_idle_def)
    with loop_body_pending_fences [OF pend, of t']
    have sg: "signaled (cbfences (fst (snd (loop_body t' ?a2))) ! i)" by simp
    from loop_body_pending_events [OF pend, of t']
    have ev: "\<exists>evs'. snd (snd (loop_body t' ?a2)) = PollEvents # DeviceWaitIdle # RecreateSwapchain # evs'"
      by blast
    from True res ws sg ev show ?thesis by simp
  next
    case False
    with lb failed have "loop_body t app = (Raise (Error ''vkQueuePresentKHR'' (presentResult t)), ?a1, ?evs)"
      by (simp add: present_image_def)
    with False running show ?thesis by simp
  qed
qed

theorem present_stale_or_fatal_witness:
  "\<not> windowShouldClose ((scenario_tick [21, 22])\<lparr> presentResult := VK_SUBOPTIMAL_KHR \<rparr>)
   \<and> \<not> recreateSwapchain scenario_app
   \<and> unat (acquireIndex ((scenario_tick [21, 22])\<lparr> presentResult := VK_SUBOPTIMAL_KHR \<rparr>)) = 0
   \<and> will_signal (cbfences scenario_app ! 0)
   \<and> fst (loop_body ((scenario_tick [21, 22])\<lparr> presentResult := VK_SUBOPTIMAL_KHR \<rparr>) scenario_app) = Ok
   \<and> recreateSwapchain
        (fst (snd (loop_body ((scenario_tick [21, 22])\<lparr> presentResult := VK_SUBOPTIMAL_KHR \<rparr>)
                     scenario_app)))
   \<and> will_signal
        (cbfences (fst (snd (loop_body ((scenario_tick [21, 22])\<lparr> presentResult := VK_SUBOPTIMAL_KHR \<rparr>)
                               scenario_app))) ! 0)
   \<and> fst (run_loop [(scenario_tick [21, 22])\<lparr> presentResult := VK_ERROR_DEVICE_LOST \<rparr>] scenario_app)
        = Fatal (Error ''vkQueuePresentKHR'' VK_ERROR_DEVICE_LOST)"
  using present_stale_or_fatal
          [of "(scenario_tick [21, 22])\<lparr> presentResult := VK_SUBOPTIMAL_KHR \<rparr>"
              scenario_app 0 "scenario_tick [21, 22]" "[]"]
        present_stale_or_fatal
          [of "(scenario_tick [21, 22])\<lparr> presentResult := VK_ERROR_DEVICE_LOST \<rparr>"
              scenario_app 0 "scenario_tick [21, 22]" "[]"]
  by (simp add: scenario_tick_def scenario_app_def will_signal_def)

lemma loop_body_pool:
  assumes "loop_body t app = (r, app', evs)"
  shows "length (cbfences app') = length (cbfences app) \<and> cbuffers app' = cbuffers app"
proof (cases "recreateSwapchain app")
  case True
  obtain r1 a1 e1 where rb: "recreate_branch t app = (r1, a1, e1)"
    by (cases "recreate_branch t app")
  with True assms have "app' = a1" by (simp add: loop_body_def)
  with recreate_branch_fences [OF rb] show ?thesis
    by (simp add: device_wait_idle_def)
next
  case False
  obtain r1 a1 e1 where fb: "frame_branch t app = (r1, a1, e1)"
    by (cases "frame_branch t app")
  with False assms have "app' = a1" by (simp add: loop_body_def)
  with frame_branch_pool [OF fb] show ?thesis by simp
qed

lemma run_loop_pool:
  "run_loop ts app = (st, app', evs) \<Longrightarrow>
     length (cbfences app') = length (cbfences app) \<and> cbuffers app' = cbuffers app"
proof (induction ts arbitrary: app st app' evs)
  case Nil
  then show ?case by simp
next
  case (Cons t ts)
  show ?case
  proof (cases "windowShouldClose t")
    case True
    with Cons.prems show ?thesis by simp
  next
    case False
    obtain r a1 e1 where lb: "loop_body t app = (r, a1, e1)"
      by (cases "loop_body t app")
    note p1 = loop_body_pool [OF lb]
    show ?thesis
    proof (cases r)
      case Ok
      obtain st2 a2 e2 where rl: "run_loop ts a1 = (st2, a2, e2)"
        by (cases "run_loop ts a1")
      from Cons.IH [OF rl] Cons.prems False lb Ok rl p1 show ?thesis by simp
    next
      case (Raise e)
      with Cons.prems False lb p1 show ?thesis by simp
    next
      case Blocked
      with Cons.prems False lb p1 show ?thesis by simp
    qed
  qed
qed

lemma loop_body_events:
  "(\<forall>e \<in> set (snd (snd (loop_body t app))). \<not> frame_event e)
   \<or> (\<exists>rest. [PollEvents, AcquireNextImage, WaitForFences (unat (acquireIndex t)),
               ResetFences (unat (acquireIndex t)), RecordCommands (unat (acquireIndex t)),
               SubmitCommands (unat (acquireIndex t)), QueuePresent (unat (acquireIndex t))]
              = snd (snd (loop_body t app)) @ rest)"
proof (cases "recreateSwapchain app")
  case True
  from loop_body_pending_events [OF True, of t] show ?thesis by auto
next
  case False
  show ?thesis
  proof (cases "acquireResult t = VK_SUCCESS")
    case True
    from render_frame_events [of "unat (acquireIndex t)" t app] obtain rest where
      "[WaitForFences (unat (acquireIndex t)), ResetFences (unat (acquireIndex t)),
        RecordCommands (unat (acquireIndex t)), SubmitCommands (unat (acquireIndex t)),
        QueuePresent (unat (acquireIndex t))]
         = snd (snd (render_frame t (unat (acquireIndex t)) app)) @ rest" ..
    with False True show ?thesis
      by (simp add: loop_body_frame frame_branch_acquired split: prod.splits)
  next
    case acq: False
    with False show ?thesis
      by (simp add: loop_body_frame frame_branch_not_acquired)
  qed
qed

lemma loop_body_recorded:
  assumes "RecordCommands j \<in> set (snd (snd (loop_body t app)))
           \<or> SubmitCommands j \<in> set (snd (snd (loop_body t app)))"
  shows "j = unat (acquireIndex t) \<and> j < length (cbfences app) \<and> will_signal (cbfences app ! j)
         \<and> waitFenceResult t = VK_SUCCESS \<and> resetFenceResult t = VK_SUCCESS"
proof (cases "recreateSwapchain app")
  case True
  from loop_body_pending_events [OF True, of t] obtain evs' where
      e: "snd (snd (loop_body t app)) = PollEvents # DeviceWaitIdle # RecreateSwapchain # evs'"
    and nf: "\<forall>e \<in> set evs'. \<not> frame_event e"
    by blast
  from assms e have "RecordCommands j \<in> set evs' \<or> SubmitCommands j \<in> set evs'"
    by auto
  then have False
  proof
    assume "RecordCommands j \<in> set evs'"
    with nf have "\<not> frame_event (RecordCommands j)" by blast
    then show False by simp
  next
    assume "SubmitCommands j \<in> set evs'"
    with nf have "\<not> frame_event (SubmitCommands j)" by blast
    then show False by simp
  qed
  then show ?thesis ..
next
  case False
  show ?thesis
  proof (cases "acquireResult t = VK_SUCCESS")
    case True
    with False assms
    have "RecordCommands j \<in> set (snd (snd (render_frame t (unat (acquireIndex t)) app)))
           \<or> SubmitCommands j \<in> set (snd (snd (render_frame t (unat (acquireIndex t)) app)))"
      by (auto simp: loop_body_frame frame_branch_acquired split: prod.splits)
    from render_frame_recorded [OF this] show ?thesis by simp
  next
    case acq: False
    with False assms show ?thesis
      by (auto simp: loop_body_frame frame_branch_not_acquired split: if_splits)
  qed
qed

lemma run_loop_scenario_frame:
  "run_loop [scenario_tick [21, 22]] scenario_app
     = (Running,
        scenario_app\<lparr> cbfences := [\<lparr> fence_handle = 400, signaled = False, in_flight = 1 \<rparr>,
                                   \<lparr> fence_handle = 401, signaled = True, in_flight = 0 \<rparr>] \<rparr>,
        [PollEvents, AcquireNextImage, WaitForFences 0, ResetFences 0,
         RecordCommands 0, SubmitCommands 0, QueuePresent 0])"
  by (simp add: loop_body_scenario_frame) (simp add: scenario_tick_def)

text \<open>
  Claim C7. In every state the frame loop reaches from start-up, each frame slot has at
  most one submission in flight, and none once its fence is signalled; the same holds
  after one more iteration, however it ends. The calls of an iteration that draw a frame
  come in one fixed order on one slot, the acquired image index: acquire, wait for the
  slot's fence, reset it, record the slot's command buffer, submit it, present. So a
  command buffer is recorded or submitted only after, in the same iteration, the wait on
  its slot's fence has returned successfully (the fence was signalled or had a submission
  in flight) and the fence has been reset.
\<close>

theorem one_submission_per_slot:
  assumes start: "main_startup t0 win = Inr app0"
    and run: "run_loop ts app0 = (st, app, evs)"
  shows "slots_ok (cbfences app)
       \<and> slots_ok (cbfences (fst (snd (loop_body t app))))
       \<and> ((\<forall>e \<in> set (snd (snd (loop_body t app))). \<not> frame_event e)
          \<or> (\<exists>rest. [PollEvents, AcquireNextImage, WaitForFences (unat (acquireIndex t)),
                      ResetFences (unat (acquireIndex t)), RecordCommands (unat (acquireIndex t)),
                      SubmitCommands (unat (acquireIndex t)), QueuePresent (unat (acquireIndex t))]
                     = snd (snd (loop_body t app)) @ rest))
       \<and> (RecordCommands j \<in> set (snd (snd (loop_body t app)))
            \<or> SubmitCommands j \<in> set (snd (snd (loop_body t app)))
          \<longrightarrow> j = unat (acquireIndex t) \<and> j < length (cbfences app)
              \<and> will_signal (cbfences app ! j)
              \<and> waitFenceResult t = VK_SUCCESS \<and> resetFenceResult t = VK_SUCCESS)"
proof -
  from main_startup_ok(1) [OF start] have "slots_ok (cbfences app0)" .
  from run_loop_slots_ok [OF this run] have 1: "slots_ok (cbfences app)" .
  obtain r a1 e1 where lb: "loop_body t app = (r, a1, e1)"
    by (cases "loop_body t app")
  from loop_body_slots_ok [OF 1 lb] lb
  have 2: "slots_ok (cbfences (fst (snd (loop_body t app))))" by simp
  from 1 2 loop_body_events [of t app] loop_body_recorded [of j t app]
  show ?thesis by blast
qed

theorem one_submission_per_slot_witness:
  "main_startup (scenario_tick [21, 22]) scenario_window = Inr scenario_app
   \<and> fst (run_loop [scenario_tick [21, 22]] scenario_app) = Running
   \<and> slots_ok (cbfences (fst (snd (run_loop [scenario_tick [21, 22]] scenario_app))))
   \<and> in_flight (cbfences (fst (snd (run_loop [scenario_tick [21, 22]] scenario_app))) ! 0) = 1
   \<and> RecordCommands 0 \<in> set (snd (snd (loop_body (scenario_tick [21, 22]) scenario_app)))
   \<and> will_signal (cbfences scenario_app ! 0)"
  using one_submission_per_slot
          [OF main_startup_scenario run_loop_scenario_frame, of "scenario_tick [21, 22]" 0]
        one_submission_per_slot
          [OF main_startup_scenario, of "[]" Running scenario_app "[]" "scenario_tick [21, 22]" 0]
        main_startup_scenario run_loop_scenario_frame loop_body_scenario_frame
  by simp

text \<open>
  Claim C1. After every \<open>recreate_swapchain\<close> that returns, the window has as many views as
  images (\<open>recreate_swapchain_views_images\<close>), and the recreation pass builds one
  framebuffer per view. The command buffers and fences, however, are created once, at
  start-up, and the loop never resizes them (\<open>run_loop_pool\<close>). Start-up on a two-image
  swapchain, an out-of-date acquire and a recreation that yields three images leave three
  images, views and framebuffers beside two command buffers and two fences; when the next
  acquire returns image index 2, the assertion of line 155 fails.
\<close>

theorem frame_pool_not_resized:
  "main_startup (scenario_tick [21, 22]) scenario_window = Inr scenario_app
   \<and> length (swapImages (window scenario_app)) = 2 \<and> length (cbfences scenario_app) = 2
   \<and> run_loop [(scenario_tick [21, 22])\<lparr> acquireResult := VK_ERROR_OUT_OF_DATE_KHR \<rparr>,
               scenario_tick [21, 22, 23]] scenario_app
       = (Running, grown_app,
          [PollEvents, AcquireNextImage, PollEvents, DeviceWaitIdle, RecreateSwapchain,
           CreateFramebuffers])
   \<and> length (swapImages (window grown_app)) = 3
   \<and> length (swapViews (window grown_app)) = 3
   \<and> length (framebuffers grown_app) = 3
   \<and> length (cbuffers grown_app) = 2
   \<and> length (cbfences grown_app) = 2
   \<and> run_loop [(scenario_tick [21, 22])\<lparr> acquireResult := VK_ERROR_OUT_OF_DATE_KHR \<rparr>,
               scenario_tick [21, 22, 23],
               (scenario_tick [21, 22, 23])\<lparr> acquireIndex := 2 \<rparr>] scenario_app
       = (Fatal (AssertionFailed ''imageIndex < cbfences.size()''), grown_app,
          [PollEvents, AcquireNextImage, PollEvents, DeviceWaitIdle, RecreateSwapchain,
           CreateFramebuffers, PollEvents, AcquireNextImage])"
proof -
  have closed: "\<not> windowShouldClose ((scenario_tick [21, 22])\<lparr> acquireResult := VK_ERROR_OUT_OF_DATE_KHR \<rparr>)"
    "\<not> windowShouldClose (scenario_tick [21, 22, 23])"
    "\<not> windowShouldClose ((scenario_tick [21, 22, 23])\<lparr> acquireIndex := 2 \<rparr>)"
    by (simp_all add: scenario_tick_def)
  have sizes: "length (swapImages (window scenario_app)) = 2" "length (cbfences scenario_app) = 2"
    "length (swapImages (window grown_app)) = 3"
    "length (swapViews (window grown_app)) = 3"
    "length (framebuffers grown_app) = 3"
    "length (cbuffers grown_app) = 2"
    "length (cbfences grown_app) = 2"
    by (simp_all add: grown_app_def scenario_app_def scenario_window_def)
  show ?thesis
    using closed sizes main_startup_scenario
    by (simp add: loop_body_scenario_stale loop_body_scenario_recreate3 loop_body_scenario_acquire2)
qed

end
